theory Spec2Isabelle
  imports Main "HOL-Library.Word"
begin

unbundle bit_operations_syntax

section \<open>Texecom Connect client (alarm-monitor.py): data model\<close>

text \<open>
  The program is Python 2: a \<open>str\<close> is a byte string, modelled as \<open>string\<close>
  (a list of 8-bit \<open>char\<close>); \<open>ord\<close> is \<open>of_char\<close> and \<open>chr\<close> is \<open>chr_py\<close>
  below. Python integers are \<open>int\<close>. Every exception the code can raise is a value
  of \<open>exn\<close>; a function that can raise returns \<open>exn + 'a\<close> together with the
  state it leaves behind.
\<close>

datatype exn =
    SocketTimeout
  | ValueError
  | IndexError
  | KeyError
  | TypeError
  | NameError
  | UnboundLocalError
  | AttributeError

text \<open>
  The stream socket \<open>self.s\<close>. What the panel sends is a list of events in arrival
  order: \<open>Chunk bs\<close> are bytes that are available to the next \<open>recv\<close> calls,
  \<open>Timeout\<close> is a two-second silence (the socket's timeout, set in \<open>connect\<close>).
  \<open>sent\<close> collects the argument of every \<open>send\<close>, oldest first.
\<close>

datatype event = Timeout | Chunk string

record net =
  incoming :: "event list"
  sent :: "string list"

text \<open>The dictionary stored per zone by \<open>get_all_zones\<close>.\<close>

record zonedata =
  ztype :: int
  areas :: int
  ztext :: string

text \<open>
  One constructor per \<open>self.log\<close> call of the source, carrying the values the message
  is formatted from (the timestamp and the number formatting are not modelled).
\<close>

datatype output_name = Location string | NetworkKeypad int | NetworkExpander int int

datatype logmsg =
    LogDropped
  | LogBadStart char
  | LogBadCrc int int
  | LogResponseSeq char char
  | LogMessageSeq int char
  | LogUnexpectedCommand
  | LogNak
  | LogUnexpectedAck char
  | LogTimeoutResend
  | LogSessionTimedOut
  | LogWrongCommand char char
  | LogPayload string
  | LogWrongLength string
  | LogPanelId string
  | LogZone int int int string
  | LogDebugMessage string
  | LogUnknownPayloadLength
  | LogZoneEvent int string string
  | LogAreaEvent int string
  | LogOutputEvent int output_name int
  | LogUserEvent int string
  | LogLogEvent string
  | LogUnknownMessage int string

text \<open>
  The fields of a \<open>TexecomConnect\<close> object. \<open>last_sequence\<close> and \<open>last_command\<close>
  are attributes that do not exist before the first \<open>sendcommandbody\<close> (\<open>None\<close>
  here; reading them then is an \<open>AttributeError\<close>). \<open>sock\<close> is \<open>False\<close> once
  \<open>self.s\<close> has been set to \<open>None\<close>. \<open>logs\<close> is what \<open>log\<close> has printed.
  \<open>print_network_traffic\<close> is constantly \<open>False\<close> and \<open>last_command_time\<close> is a
  wall-clock reading; neither is modelled.
\<close>

record tc_state =
  nextseq :: int
  last_received_seq :: int
  last_sequence :: "char option"
  last_command :: "string option"
  zone :: "int \<rightharpoonup> zonedata"
  sock :: bool
  logs :: "logmsg list"

type_synonym handler = "string \<Rightarrow> tc_state \<Rightarrow> exn option \<times> tc_state"

definition LENGTH_HEADER :: int where "LENGTH_HEADER = 4"
definition HEADER_START :: char where "HEADER_START = CHR ''t''"
definition HEADER_TYPE_COMMAND :: char where "HEADER_TYPE_COMMAND = CHR ''C''"
definition HEADER_TYPE_RESPONSE :: char where "HEADER_TYPE_RESPONSE = CHR ''R''"
definition HEADER_TYPE_MESSAGE :: char where "HEADER_TYPE_MESSAGE = CHR ''M''"

definition CMD_LOGIN :: char where "CMD_LOGIN = CHR 0x01"
definition CMD_GETZONEDETAILS :: char where "CMD_GETZONEDETAILS = CHR 0x03"
definition CMD_GETPANELIDENTIFICATION :: char where "CMD_GETPANELIDENTIFICATION = CHR 0x16"
definition CMD_GETDATETIME :: char where "CMD_GETDATETIME = CHR 0x17"
definition CMD_SETEVENTMESSAGES :: char where "CMD_SETEVENTMESSAGES = CHR 0x25"

definition ZONETYPE_UNUSED :: int where "ZONETYPE_UNUSED = 0"

definition CMD_RESPONSE_ACK :: string where "CMD_RESPONSE_ACK = [CHR 0x06]"
definition CMD_RESPONSE_NAK :: string where "CMD_RESPONSE_NAK = [CHR 0x15]"

definition MSG_DEBUG :: char where "MSG_DEBUG = CHR 0x00"
definition MSG_ZONEEVENT :: char where "MSG_ZONEEVENT = CHR 0x01"
definition MSG_AREAEVENT :: char where "MSG_AREAEVENT = CHR 0x02"
definition MSG_OUTPUTEVENT :: char where "MSG_OUTPUTEVENT = CHR 0x03"
definition MSG_USEREVENT :: char where "MSG_USEREVENT = CHR 0x04"
definition MSG_LOGEVENT :: char where "MSG_LOGEVENT = CHR 0x05"

text \<open>The object as \<open>__init__\<close> leaves it, after \<open>connect\<close> has opened the socket.\<close>

definition init_state :: tc_state where
  "init_state = \<lparr> nextseq = 0, last_received_seq = - 1, last_sequence = None,
     last_command = None, zone = Map.empty, sock = True, logs = [] \<rparr>"

definition log :: "logmsg \<Rightarrow> tc_state \<Rightarrow> tc_state" where
  "log m st = st\<lparr>logs := logs st @ [m]\<rparr>"

section \<open>Python primitives\<close>

text \<open>\<open>chr(i)\<close> raises \<open>ValueError\<close> outside \<open>range(256)\<close>.\<close>

definition chr_py :: "int \<Rightarrow> exn + char" where
  "chr_py i = (if 0 \<le> i \<and> i < 256 then Inr (char_of i) else Inl ValueError)"

text \<open>
  Modelled from the spec: \<open>crcmod.mkCrcFun(poly=0x185, rev=False, initCrc=0xff)\<close>
  is a library call whose code is not part of the source file; the spec (section 6) gives
  it as CRC-8, polynomial 0x185, non-reflected, initial value 0xFF. One shift step, one
  byte, then the whole string, most significant bit first.
\<close>

definition crc8_shift :: "8 word \<Rightarrow> 8 word" where
  "crc8_shift c = (if bit c 7 then push_bit 1 c XOR 0x85 else push_bit 1 c)"

definition crc8_byte :: "8 word \<Rightarrow> char \<Rightarrow> 8 word" where
  "crc8_byte c b = (crc8_shift ^^ 8) (c XOR of_char b)"

definition crc8_func :: "string \<Rightarrow> int" where
  "crc8_func data = uint (foldl crc8_byte 0xFF data)"

text \<open>
  \<open>self.s.recv(n)\<close>. A request for no bytes returns the empty string at once; a
  negative size is refused by the caller (see \<open>read_frame\<close>). Otherwise the call takes
  at most \<open>n\<close> bytes of the chunk at the head of the stream, leaving the rest of the
  chunk for the next call; a \<open>Timeout\<close> event, or a stream with nothing more to come,
  raises \<open>socket.timeout\<close>.
\<close>

fun recv :: "nat \<Rightarrow> net \<Rightarrow> (exn + string) \<times> net" where
  "recv n nt =
     (if n = 0 then (Inr [], nt)
      else case incoming nt of
          [] \<Rightarrow> (Inl SocketTimeout, nt)
        | Timeout # evs \<Rightarrow> (Inl SocketTimeout, nt\<lparr>incoming := evs\<rparr>)
        | Chunk bs # evs \<Rightarrow>
            if length bs \<le> n then (Inr bs, nt\<lparr>incoming := evs\<rparr>)
            else (Inr (take n bs), nt\<lparr>incoming := Chunk (drop n bs) # evs\<rparr>))"

definition send :: "string \<Rightarrow> net \<Rightarrow> net" where
  "send data nt = nt\<lparr>sent := sent nt @ [data]\<rparr>"

section \<open>Sequence numbers and sending\<close>

definition getnextseq :: "tc_state \<Rightarrow> int \<times> tc_state" where
  "getnextseq st =
     (let st1 = (if nextseq st = 256 then st\<lparr>nextseq := 0\<rparr> else st);
          next = nextseq st1
      in (next, st1\<lparr>nextseq := nextseq st1 + 1\<rparr>))"

definition sendcommandbody :: "string \<Rightarrow> net \<Rightarrow> tc_state \<Rightarrow> (exn + unit) \<times> net \<times> tc_state" where
  "sendcommandbody body nt st =
     (case getnextseq st of (n, st1) \<Rightarrow>
      (case chr_py n of
         Inl e \<Rightarrow> (Inl e, nt, st1)
       | Inr sq \<Rightarrow>
           let st2 = st1\<lparr>last_sequence := Some sq\<rparr> in
           (case chr_py (int (length body) + 5) of
              Inl e \<Rightarrow> (Inl e, nt, st2)
            | Inr ln \<Rightarrow>
                let data = [HEADER_START, HEADER_TYPE_COMMAND, ln, sq] @ body in
                (case chr_py (crc8_func data) of
                   Inl e \<Rightarrow> (Inl e, nt, st2)
                 | Inr ck \<Rightarrow>
                     let data = data @ [ck] in
                     if \<not> sock st2 then (Inl AttributeError, nt, st2)
                     else (Inr (), send data nt, st2\<lparr>last_command := Some data\<rparr>)))))"

text \<open>
  The bytes of one frame on the wire, as \<open>sendcommandbody\<close> lays them out and
  \<open>recvresponse\<close> takes them apart, with the type byte as a parameter: the frames the
  panel sends are responses (\<open>R\<close>) and messages (\<open>M\<close>). It is used to state
  what arrives on the socket.
\<close>

definition wire :: "char \<Rightarrow> char \<Rightarrow> string \<Rightarrow> string" where
  "wire kind sq body =
     (let data = [HEADER_START, kind, char_of (int (length body) + 5), sq] @ body
      in data @ [char_of (crc8_func data)])"

section \<open>Receiving\<close>

text \<open>
  The header and payload variables of one pass through the loop of \<open>recvresponse\<close>,
  after the checksum byte has been split off the payload.
\<close>

record frame =
  msg_start :: char
  msg_type :: char
  msg_length :: char
  msg_sequence :: char
  payload :: string
  msg_crc :: int

text \<open>
  How one pass through the \<open>while True\<close> loop ends: it falls through to the next
  statement with a value, executes \<open>return\<close>, or raises.
\<close>

datatype 'a outcome = Next 'a | Return "string option" | Raise exn

text \<open>
  Lines 99 to 119 of \<open>recvresponse\<close>: read the header, recognise the forced
  disconnect, read the payload, split off and check the checksum, check the start marker.
  \<open>list(header)\<close> unpacks into exactly four names (\<open>ValueError\<close> otherwise),
  \<open>recv\<close> refuses a negative size with \<open>ValueError\<close>, and \<open>payload[-1]\<close> on an
  empty string is an \<open>IndexError\<close>.
\<close>

definition read_frame :: "net \<Rightarrow> tc_state \<Rightarrow> frame outcome \<times> net \<times> tc_state" where
  "read_frame nt st =
     (if \<not> sock st then (Raise AttributeError, nt, st)
      else
        (case recv (nat LENGTH_HEADER) nt of
           (Inl e, nt1) \<Rightarrow> (Raise e, nt1, st)
         | (Inr header, nt1) \<Rightarrow>
             if header = ''+++'' then (Return None, nt1, (log LogDropped st)\<lparr>sock := False\<rparr>)
             else
               (case header of
                  [m_start, m_type, m_length, m_sequence] \<Rightarrow>
                    if of_char m_length - LENGTH_HEADER < 0 then (Raise ValueError, nt1, st)
                    else
                      (case recv (nat (of_char m_length - LENGTH_HEADER)) nt1 of
                         (Inl e, nt2) \<Rightarrow> (Raise e, nt2, st)
                       | (Inr pl, nt2) \<Rightarrow>
                           if pl = [] then (Raise IndexError, nt2, st)
                           else
                             (let pay = butlast pl; m_crc = of_char (last pl);
                                  expected_crc = crc8_func (header @ pay)
                              in if m_start \<noteq> CHR ''t''
                                   then (Return None, nt2, log (LogBadStart m_start) st)
                                 else if m_crc \<noteq> expected_crc
                                   then (Return None, nt2, log (LogBadCrc expected_crc m_crc) st)
                                 else (Next \<lparr> msg_start = m_start, msg_type = m_type,
                                              msg_length = m_length, msg_sequence = m_sequence,
                                              payload = pay, msg_crc = m_crc \<rparr>, nt2, st)))
                | _ \<Rightarrow> (Raise ValueError, nt1, st))))"

text \<open>
  Lines 120 to 134: the sequence check of a frame that passed \<open>read_frame\<close>. A
  response must carry the sequence byte of the last command sent; a message must follow
  the last message received, unless none has been received yet (\<open>- 1\<close>).
\<close>

definition check_sequence :: "frame \<Rightarrow> tc_state \<Rightarrow> unit outcome \<times> tc_state" where
  "check_sequence f st =
     (if msg_type f = HEADER_TYPE_RESPONSE then
        (case last_sequence st of
           None \<Rightarrow> (Raise AttributeError, st)
         | Some ls \<Rightarrow>
             if msg_sequence f \<noteq> ls
             then (Return None, log (LogResponseSeq ls (msg_sequence f)) st)
             else (Next (), st))
      else if msg_type f = HEADER_TYPE_MESSAGE then
        (case (if last_received_seq st \<noteq> - 1 then
                 (let next_msg_seq = last_received_seq st + 1;
                      next_msg_seq = (if next_msg_seq = 256 then 0 else next_msg_seq)
                  in case chr_py next_msg_seq of
                       Inl e \<Rightarrow> (Raise e, st)
                     | Inr c \<Rightarrow>
                         if msg_sequence f \<noteq> c
                         then (Return None, log (LogMessageSeq next_msg_seq (msg_sequence f)) st)
                         else (Next (), st))
               else (Next (), st)) of
           (Next u, st1) \<Rightarrow> (Next (), st1\<lparr>last_received_seq := of_char (msg_sequence f)\<rparr>)
         | (r, st1) \<Rightarrow> (r, st1))
      else (Next (), st))"

text \<open>
  Lines 137 to 143: the dispatch on the frame type. A message goes to
  \<open>message_handler_func\<close>, whose exception, if any, leaves the loop; \<open>Next ()\<close> is
  the end of the loop body, so the loop goes round again (also for a frame of a type
  that is none of the three).
\<close>

definition dispatch_frame :: "handler \<Rightarrow> frame \<Rightarrow> tc_state \<Rightarrow> unit outcome \<times> tc_state" where
  "dispatch_frame h f st =
     (if msg_type f = HEADER_TYPE_COMMAND then (Return None, log LogUnexpectedCommand st)
      else if msg_type f = HEADER_TYPE_RESPONSE then (Return (Some (payload f)), st)
      else if msg_type f = HEADER_TYPE_MESSAGE then
        (case h (payload f) st of
           (Some e, st1) \<Rightarrow> (Raise e, st1)
         | (None, st1) \<Rightarrow> (Next (), st1))
      else (Next (), st))"

text \<open>One pass through the loop body.\<close>

definition recv_step :: "handler \<Rightarrow> net \<Rightarrow> tc_state \<Rightarrow> unit outcome \<times> net \<times> tc_state" where
  "recv_step h nt st =
     (case read_frame nt st of
        (Next f, nt1, st1) \<Rightarrow>
          (case check_sequence f st1 of
             (Next u, st2) \<Rightarrow> (case dispatch_frame h f st2 of (r, st3) \<Rightarrow> (r, nt1, st3))
           | (Return r, st2) \<Rightarrow> (Return r, nt1, st2)
           | (Raise e, st2) \<Rightarrow> (Raise e, nt1, st2))
      | (Return r, nt1, st1) \<Rightarrow> (Return r, nt1, st1)
      | (Raise e, nt1, st1) \<Rightarrow> (Raise e, nt1, st1))"

text \<open>The bytes and silences still to come, counted so that every read makes it smaller.\<close>

fun event_size :: "event \<Rightarrow> nat" where
  "event_size Timeout = 1"
| "event_size (Chunk bs) = Suc (length bs)"

definition net_size :: "net \<Rightarrow> nat" where
  "net_size nt = sum_list (map event_size (incoming nt))"

lemma recv_size_le: "recv n nt = (r, nt') \<Longrightarrow> net_size nt' \<le> net_size nt"
  by (auto simp: net_size_def split: if_splits list.splits event.splits)

lemma recv_size_less: "0 < n \<Longrightarrow> recv n nt = (Inr bs, nt') \<Longrightarrow> net_size nt' < net_size nt"
  by (auto simp: net_size_def split: if_splits list.splits event.splits)

lemma read_frame_size_less:
  assumes "read_frame nt st = (Next f, nt', st')"
  shows "net_size nt' < net_size nt"
proof -
  from assms obtain header nt1 where h: "recv (nat LENGTH_HEADER) nt = (Inr header, nt1)"
    and le: "net_size nt' \<le> net_size nt1"
    by (auto simp: read_frame_def Let_def simp del: recv.simps
        split: if_splits prod.splits sum.splits list.splits dest: recv_size_le)
  from recv_size_less [OF _ h] have "net_size nt1 < net_size nt"
    by (simp add: LENGTH_HEADER_def)
  with le show ?thesis by simp
qed

lemma recv_step_size_less:
  assumes "recv_step h nt st = (Next u, nt', st')"
  shows "net_size nt' < net_size nt"
  using assms
  by (auto simp: recv_step_def split: prod.splits outcome.splits dest: read_frame_size_less)

text \<open>
  \<open>recvresponse\<close>: the loop itself. It ends with the value returned (\<open>None\<close> or the
  payload of a response) or with the exception raised.
\<close>

function recvresponse :: "handler \<Rightarrow> net \<Rightarrow> tc_state \<Rightarrow> (exn + string option) \<times> net \<times> tc_state" where
  "recvresponse h nt st =
     (case recv_step h nt st of
        (Next u, nt1, st1) \<Rightarrow> recvresponse h nt1 st1
      | (Return r, nt1, st1) \<Rightarrow> (Inr r, nt1, st1)
      | (Raise e, nt1, st1) \<Rightarrow> (Inl e, nt1, st1))"
  by pat_completeness auto
termination
  by (relation "measure (\<lambda>(h, nt, st). net_size nt)")
    (auto dest: recv_step_size_less [OF sym])

declare recvresponse.simps [simp del]

section \<open>Commands\<close>

text \<open>
  The retry loop of \<open>sendcommand\<close> (\<open>while retries > 0\<close>). The result is the local
  variable \<open>response\<close>: \<open>None\<close> when the loop ended without ever assigning it,
  \<open>Some r\<close> when \<open>recvresponse\<close> returned \<open>r\<close>. Only \<open>socket.timeout\<close> is
  caught; the handler logs and sends \<open>last_command\<close> again.
\<close>

fun retry_loop :: "nat \<Rightarrow> handler \<Rightarrow> net \<Rightarrow> tc_state \<Rightarrow> (exn + string option option) \<times> net \<times> tc_state" where
  "retry_loop 0 h nt st = (Inr None, nt, st)"
| "retry_loop (Suc retries) h nt st =
     (case recvresponse h nt st of
        (Inr response, nt1, st1) \<Rightarrow> (Inr (Some response), nt1, st1)
      | (Inl e, nt1, st1) \<Rightarrow>
          if e = SocketTimeout then
            (let st2 = log LogTimeoutResend st1 in
             if \<not> sock st2 then (Inl AttributeError, nt1, st2)
             else case last_command st2 of
                 None \<Rightarrow> (Inl AttributeError, nt1, st2)
               | Some data \<Rightarrow> retry_loop retries h (send data nt1) st2)
          else (Inl e, nt1, st1))"

text \<open>
  Lines 209 to 217 of \<open>sendcommand\<close>: the response is split into its first byte and
  the rest, and the first byte is compared with the command sent. \<open>response[0]\<close> on
  the empty string and \<open>payload[0]\<close> on an empty payload are \<open>IndexError\<close>s.
\<close>

definition check_response :: "char \<Rightarrow> string \<Rightarrow> net \<Rightarrow> tc_state \<Rightarrow> (exn + string option) \<times> net \<times> tc_state" where
  "check_response cmd response nt2 st2 =
     (case response of
        [] \<Rightarrow> (Inl IndexError, nt2, st2)
      | commandid # pl \<Rightarrow>
          if commandid \<noteq> cmd then
            (if commandid = CMD_LOGIN \<and> pl = [] then (Inl IndexError, nt2, st2)
             else if commandid = CMD_LOGIN \<and> [hd pl] = CMD_RESPONSE_NAK
               then (Inr None, nt2, log LogSessionTimedOut st2)
             else (Inr None, nt2,
                    log (LogPayload pl) (log (LogWrongCommand cmd commandid) st2)))
          else (Inr (Some pl), nt2, st2))"

text \<open>
  \<open>sendcommand(cmd, body)\<close>; \<open>cmd\<close> is one of the one-character \<open>CMD_\<close>
  constants, \<open>body\<close> a string or \<open>None\<close>. After the loop, \<open>response[0]\<close> is an
  \<open>UnboundLocalError\<close> when \<open>response\<close> was never assigned and a \<open>TypeError\<close>
  when it is \<open>None\<close>.
\<close>

definition sendcommand :: "handler \<Rightarrow> char \<Rightarrow> string option \<Rightarrow> net \<Rightarrow> tc_state \<Rightarrow> (exn + string option) \<times> net \<times> tc_state" where
  "sendcommand h cmd body nt st =
     (let body = (case body of None \<Rightarrow> [cmd] | Some b \<Rightarrow> if b \<noteq> [] then cmd # b else [cmd]) in
      case sendcommandbody body nt st of
        (Inl e, nt1, st1) \<Rightarrow> (Inl e, nt1, st1)
      | (Inr u, nt1, st1) \<Rightarrow>
          (case retry_loop 3 h nt1 st1 of
             (Inl e, nt2, st2) \<Rightarrow> (Inl e, nt2, st2)
           | (Inr None, nt2, st2) \<Rightarrow> (Inl UnboundLocalError, nt2, st2)
           | (Inr (Some None), nt2, st2) \<Rightarrow> (Inl TypeError, nt2, st2)
           | (Inr (Some (Some response)), nt2, st2) \<Rightarrow> check_response cmd response nt2 st2))"

text \<open>
  \<open>login(udl)\<close>. \<open>hex(ord(response))\<close> in the second branch is a \<open>TypeError\<close>
  unless \<open>response\<close> is a string of exactly one character.
\<close>

definition login :: "handler \<Rightarrow> string \<Rightarrow> net \<Rightarrow> tc_state \<Rightarrow> (exn + bool) \<times> net \<times> tc_state" where
  "login h udl nt st =
     (case sendcommand h CMD_LOGIN (Some udl) nt st of
        (Inl e, nt1, st1) \<Rightarrow> (Inl e, nt1, st1)
      | (Inr response, nt1, st1) \<Rightarrow>
          if response = Some CMD_RESPONSE_NAK then (Inr False, nt1, log LogNak st1)
          else if response \<noteq> Some CMD_RESPONSE_ACK then
            (case response of
               Some [c] \<Rightarrow> (Inr False, nt1, log (LogUnexpectedAck c) st1)
             | _ \<Rightarrow> (Inl TypeError, nt1, st1))
          else (Inr True, nt1, st1))"

section \<open>String helpers of the Python library\<close>

text \<open>
  \<open>xs[i]\<close> on a list or string: a negative index counts from the end, an index out
  of range is an \<open>IndexError\<close>.
\<close>

definition index_py :: "'a list \<Rightarrow> int \<Rightarrow> exn + 'a" where
  "index_py xs i =
     (if 0 \<le> i \<and> i < int (length xs) then Inr (xs ! nat i)
      else if i < 0 \<and> - int (length xs) \<le> i then Inr (xs ! nat (int (length xs) + i))
      else Inl IndexError)"

text \<open>The characters \<open>str.isspace\<close> accepts, and those \<open>\\w\<close> matches in a byte string.\<close>

definition is_space :: "char \<Rightarrow> bool" where
  "is_space c = (c = CHR '' '' \<or> (9 \<le> (of_char c :: nat) \<and> (of_char c :: nat) \<le> 13))"

definition is_word :: "char \<Rightarrow> bool" where
  "is_word c =
     (let n = (of_char c :: nat)
      in (48 \<le> n \<and> n \<le> 57) \<or> (65 \<le> n \<and> n \<le> 90) \<or> (97 \<le> n \<and> n \<le> 122) \<or> n = 95)"

text \<open>\<open>s.replace("\\x00", " ")\<close>\<close>

definition replace_nul :: "string \<Rightarrow> string" where
  "replace_nul s = map (\<lambda>c. if c = CHR 0x00 then CHR '' '' else c) s"

text \<open>\<open>re.sub(r'\\W+', ' ', s)\<close>: every maximal run of non-word characters becomes one space.\<close>

function sub_nonword :: "string \<Rightarrow> string" where
  "sub_nonword [] = []"
| "sub_nonword (c # cs) =
     (if is_word c then c # sub_nonword cs
      else CHR '' '' # sub_nonword (dropWhile (\<lambda>d. \<not> is_word d) cs))"
  by pat_completeness auto
termination
  by (relation "measure length") (auto simp: less_Suc_eq_le length_dropWhile_le)

text \<open>\<open>s.strip()\<close>\<close>

definition strip :: "string \<Rightarrow> string" where
  "strip s = rev (dropWhile is_space (rev (dropWhile is_space s)))"

text \<open>\<open>s.split()\<close>: the maximal runs of characters that are not white space.\<close>

function split_ws :: "string \<Rightarrow> string list" where
  "split_ws s =
     (case dropWhile is_space s of
        [] \<Rightarrow> []
      | c # cs \<Rightarrow>
          (c # takeWhile (\<lambda>d. \<not> is_space d) cs) # split_ws (dropWhile (\<lambda>d. \<not> is_space d) cs))"
  by pat_completeness auto
termination
proof (relation "measure length")
  fix s :: string and c cs
  assume "dropWhile is_space s = c # cs"
  then have "Suc (length cs) \<le> length s"
    using length_dropWhile_le [of is_space s] by simp
  moreover have "length (dropWhile (\<lambda>d. \<not> is_space d) cs) \<le> length cs"
    by (rule length_dropWhile_le)
  ultimately show "(dropWhile (\<lambda>d. \<not> is_space d) cs, s) \<in> measure length"
    by simp
qed simp

declare split_ws.simps [simp del]

text \<open>
  \<open>int(s)\<close> for a string without white space (it comes out of \<open>split\<close>): an optional
  sign and at least one decimal digit, \<open>ValueError\<close> otherwise.
\<close>

definition is_digit :: "char \<Rightarrow> bool" where
  "is_digit c = (48 \<le> (of_char c :: nat) \<and> (of_char c :: nat) \<le> 57)"

definition digits_value :: "string \<Rightarrow> int" where
  "digits_value ds = foldl (\<lambda>a c. 10 * a + (of_char c - 48)) 0 ds"

definition int_py :: "string \<Rightarrow> exn + int" where
  "int_py s =
     (let (neg, ds) = (case s of
                         [] \<Rightarrow> (False, [])
                       | c # cs \<Rightarrow> if c = CHR ''-'' then (True, cs)
                                   else if c = CHR ''+'' then (False, cs) else (False, s))
      in if ds = [] \<or> \<not> list_all is_digit ds then Inl ValueError
         else Inr (if neg then - digits_value ds else digits_value ds))"

section \<open>Queries\<close>

text \<open>
  In the length check of both queries the second \<open>log\<close> call names \<open>payload\<close>,
  which is neither a local nor a global name there: the call raises \<open>NameError\<close>
  after the first message has been logged, and the \<open>return None\<close> behind it is never
  reached.
\<close>

definition get_panel_identification :: "handler \<Rightarrow> net \<Rightarrow> tc_state \<Rightarrow> (exn + string option) \<times> net \<times> tc_state" where
  "get_panel_identification h nt st =
     (case sendcommand h CMD_GETPANELIDENTIFICATION None nt st of
        (Inl e, nt1, st1) \<Rightarrow> (Inl e, nt1, st1)
      | (Inr None, nt1, st1) \<Rightarrow> (Inr None, nt1, st1)
      | (Inr (Some panelid), nt1, st1) \<Rightarrow>
          if length panelid \<noteq> 32
          then (Inl NameError, nt1, log (LogWrongLength ''GETPANELIDENTIFICATION'') st1)
          else (Inr (Some panelid), nt1, log (LogPanelId panelid) st1))"

definition get_zone_details :: "handler \<Rightarrow> int \<Rightarrow> net \<Rightarrow> tc_state \<Rightarrow> (exn + (int \<times> int \<times> string) option) \<times> net \<times> tc_state" where
  "get_zone_details h zn nt st =
     (case chr_py zn of
        Inl e \<Rightarrow> (Inl e, nt, st)
      | Inr c \<Rightarrow>
          (case sendcommand h CMD_GETZONEDETAILS (Some [c]) nt st of
             (Inl e, nt1, st1) \<Rightarrow> (Inl e, nt1, st1)
           | (Inr None, nt1, st1) \<Rightarrow> (Inr None, nt1, st1)
           | (Inr (Some details), nt1, st1) \<Rightarrow>
               if length details < 34
               then (Inl NameError, nt1, log (LogWrongLength ''GETZONEDETAILS'') st1)
               else
                 (let zonetype = of_char (details ! 0); areabitmap = of_char (details ! 1);
                      zonetext = drop 2 details;
                      zonetext = replace_nul zonetext;
                      zonetext = sub_nonword zonetext;
                      zonetext = strip zonetext;
                      st2 = (if zonetype \<noteq> ZONETYPE_UNUSED
                             then log (LogZone zn zonetype areabitmap zonetext) st1 else st1)
                  in (Inr (Some (zonetype, areabitmap, zonetext)), nt1, st2))))"

text \<open>
  The \<open>for zone in range(1, num_of_zones + 1)\<close> loop of \<open>get_all_zones\<close>, over the
  zones still to query. Unpacking the \<open>None\<close> that \<open>get_zone_details\<close> returns
  after a failed exchange is a \<open>TypeError\<close>.
\<close>

fun zone_loop :: "handler \<Rightarrow> int list \<Rightarrow> net \<Rightarrow> tc_state \<Rightarrow> (exn + unit) \<times> net \<times> tc_state" where
  "zone_loop h [] nt st = (Inr (), nt, st)"
| "zone_loop h (zn # zns) nt st =
     (case get_zone_details h zn nt st of
        (Inl e, nt1, st1) \<Rightarrow> (Inl e, nt1, st1)
      | (Inr None, nt1, st1) \<Rightarrow> (Inl TypeError, nt1, st1)
      | (Inr (Some (zonetype, areabitmap, zonetext)), nt1, st1) \<Rightarrow>
          (let zonedata = \<lparr> ztype = zonetype, areas = areabitmap, ztext = zonetext \<rparr>
           in zone_loop h zns nt1 (st1\<lparr>zone := (zone st1)(zn \<mapsto> zonedata)\<rparr>)))"

text \<open>
  \<open>get_all_zones\<close>. \<open>idstr.split()\<close> on \<open>None\<close> is an \<open>AttributeError\<close>;
  unpacking into four names needs exactly four fields.
\<close>

definition get_all_zones :: "handler \<Rightarrow> net \<Rightarrow> tc_state \<Rightarrow> (exn + unit) \<times> net \<times> tc_state" where
  "get_all_zones h nt st =
     (case get_panel_identification h nt st of
        (Inl e, nt1, st1) \<Rightarrow> (Inl e, nt1, st1)
      | (Inr None, nt1, st1) \<Rightarrow> (Inl AttributeError, nt1, st1)
      | (Inr (Some idstr), nt1, st1) \<Rightarrow>
          (case split_ws idstr of
             [panel_type, num_of_zones, something, firmware_version] \<Rightarrow>
               (case int_py num_of_zones of
                  Inl e \<Rightarrow> (Inl e, nt1, st1)
                | Inr n \<Rightarrow> zone_loop h [1..n] nt1 st1)
           | _ \<Rightarrow> (Inl ValueError, nt1, st1)))"

section \<open>Event messages\<close>

text \<open>
  \<open>debug_print_message(payload)\<close>: decodes one unsolicited message and logs it. The
  result is the exception raised, if any. In the zone branch a payload that is neither
  two nor three bytes long leaves \<open>zone_bitmap\<close> unassigned, so the next statement
  raises \<open>UnboundLocalError\<close>; \<open>self.zone[zone_number]\<close> is a \<open>KeyError\<close> for a
  zone that is not in the registry.
\<close>

definition zone_names :: "string list" where
  "zone_names = [''secure'', ''active'', ''tamper'', ''short'']"

definition area_names :: "string list" where
  "area_names = [''disarmed'', ''in exit'', ''in entry'', ''armed'', ''part armed'', ''in alarm'']"

definition user_names :: "string list" where
  "user_names = [''code'', ''tag'', ''code+tag'']"

definition locations :: "string list" where
  "locations = [''Panel outputs'', ''Digi outputs'', ''Digi Channel low 8'',
     ''Digi Channel high 8'', ''Redcare outputs'', ''Custom outputs 1'', ''Custom outputs 2'',
     ''Custom outputs 3'', ''Custom outputs 4'', ''X-10 outputs'']"

definition zone_flags :: "int \<Rightarrow> string" where
  "zone_flags zone_bitmap =
     (if zone_bitmap AND push_bit 2 1 \<noteq> 0 then '', fault'' else []) @
     (if zone_bitmap AND push_bit 3 1 \<noteq> 0 then '', failed test'' else []) @
     (if zone_bitmap AND push_bit 4 1 \<noteq> 0 then '', alarmed'' else []) @
     (if zone_bitmap AND push_bit 5 1 \<noteq> 0 then '', manual bypassed'' else []) @
     (if zone_bitmap AND push_bit 6 1 \<noteq> 0 then '', auto bypassed'' else []) @
     (if zone_bitmap AND push_bit 7 1 \<noteq> 0 then '', zone masked'' else [])"

definition debug_print_message :: "string \<Rightarrow> tc_state \<Rightarrow> exn option \<times> tc_state" where
  "debug_print_message pl0 st =
     (case pl0 of
        [] \<Rightarrow> (Some IndexError, st)
      | m_type # pl \<Rightarrow>
          if m_type = MSG_DEBUG then (None, log (LogDebugMessage pl) st)
          else if m_type = MSG_ZONEEVENT then
            (case (if length pl = 2 then Some (of_char (pl ! 0), of_char (pl ! 1))
                   else if length pl = 3
                     then Some (of_char (pl ! 0) + push_bit 8 (of_char (pl ! 1)), of_char (pl ! 2))
                   else None) of
               None \<Rightarrow> (Some UnboundLocalError, log LogUnknownPayloadLength st)
             | Some (zone_number, zone_bitmap) \<Rightarrow>
                 (case index_py zone_names (zone_bitmap AND 3) of
                    Inl e \<Rightarrow> (Some e, st)
                  | Inr base \<Rightarrow>
                      let zone_str = base @ zone_flags zone_bitmap in
                      (case zone st zone_number of
                         None \<Rightarrow> (Some KeyError, st)
                       | Some zd \<Rightarrow>
                           (None, log (LogZoneEvent zone_number (ztext zd) zone_str) st))))
          else if m_type = MSG_AREAEVENT then
            (case index_py pl 0 of
               Inl e \<Rightarrow> (Some e, st)
             | Inr b0 \<Rightarrow>
                 (case index_py pl 1 of
                    Inl e \<Rightarrow> (Some e, st)
                  | Inr b1 \<Rightarrow>
                      let area_number = of_char b0; area_state = of_char b1 in
                      (case index_py area_names area_state of
                         Inl e \<Rightarrow> (Some e, st)
                       | Inr area_state_str \<Rightarrow>
                           (None, log (LogAreaEvent area_number area_state_str) st))))
          else if m_type = MSG_OUTPUTEVENT then
            (case index_py pl 0 of
               Inl e \<Rightarrow> (Some e, st)
             | Inr b0 \<Rightarrow>
                 (case index_py pl 1 of
                    Inl e \<Rightarrow> (Some e, st)
                  | Inr b1 \<Rightarrow>
                      let output_location = of_char b0; output_state = of_char b1;
                          output_name =
                            (if output_location < int (length locations)
                               then Location (locations ! nat output_location)
                             else if output_location AND 0xf = 0
                               then NetworkKeypad (drop_bit 4 output_location)
                             else NetworkExpander (drop_bit 4 output_location)
                                    (output_location AND 0xf))
                      in (None, log (LogOutputEvent output_location output_name output_state) st)))
          else if m_type = MSG_USEREVENT then
            (case index_py pl 0 of
               Inl e \<Rightarrow> (Some e, st)
             | Inr b0 \<Rightarrow>
                 (case index_py pl 1 of
                    Inl e \<Rightarrow> (Some e, st)
                  | Inr b1 \<Rightarrow>
                      let user_number = of_char b0; user_state = of_char b1 in
                      (case index_py user_names user_state of
                         Inl e \<Rightarrow> (Some e, st)
                       | Inr user_state_str \<Rightarrow>
                           (None, log (LogUserEvent user_number user_state_str) st))))
          else if m_type = MSG_LOGEVENT then (None, log (LogLogEvent pl) st)
          else (None, log (LogUnknownMessage (of_char m_type) pl) st))"

text \<open>
  \<open>message_handler(payload)\<close>, the function the program passes as
  \<open>message_handler_func\<close>. Both branches for zone 73 call \<open>self.log\<close> in a
  module-level function, where \<open>self\<close> is not defined: a \<open>NameError\<close>, raised
  before the garage script or the global timestamp are touched.
\<close>

definition message_handler :: handler where
  "message_handler pl0 st =
     (case debug_print_message pl0 st of
        (Some e, st1) \<Rightarrow> (Some e, st1)
      | (None, st1) \<Rightarrow>
          (case pl0 of
             [] \<Rightarrow> (Some IndexError, st1)
           | m_type # pl \<Rightarrow>
               if m_type = MSG_ZONEEVENT then
                 (case index_py pl 0 of
                    Inl e \<Rightarrow> (Some e, st1)
                  | Inr b0 \<Rightarrow>
                      (case index_py pl 1 of
                         Inl e \<Rightarrow> (Some e, st1)
                       | Inr b1 \<Rightarrow>
                           let zone_number = (of_char b0 :: int); zone_bitmap = (of_char b1 :: int);
                               zone_state = zone_bitmap AND 0x3
                           in if zone_number = 73 then (Some NameError, st1) else (None, st1)))
               else (None, st1)))"

section \<open>Frames, sending and receiving: basic facts\<close>

lemma crc8_func_range: "0 \<le> crc8_func d \<and> crc8_func d < 256"
proof -
  have "uint (foldl crc8_byte 0xFF d) < 2 ^ LENGTH(8)"
    by (rule uint_lt2p)
  then show ?thesis by (simp add: crc8_func_def)
qed

lemma chr_py_crc: "chr_py (crc8_func d) = Inr (char_of (crc8_func d))"
  using crc8_func_range [of d] by (simp add: chr_py_def)

lemma of_char_crc: "(of_char (char_of (crc8_func d)) :: int) = crc8_func d"
  using crc8_func_range [of d] by simp

lemma of_char_len: "length body \<le> 250 \<Longrightarrow> (of_char (char_of (int (length body) + 5)) :: int) = int (length body) + 5"
  by simp

lemma chr_py_len: "length body \<le> 250 \<Longrightarrow> chr_py (int (length body) + 5) = Inr (char_of (int (length body) + 5))"
  by (simp add: chr_py_def)

lemma read_frame_wire:
  assumes "sock st" and "incoming nt = Chunk (wire kind sq body) # rest" and "length body \<le> 250"
  shows "read_frame nt st =
    (Next \<lparr> msg_start = HEADER_START, msg_type = kind,
            msg_length = char_of (int (length body) + 5), msg_sequence = sq,
            payload = body,
            msg_crc = crc8_func ([HEADER_START, kind, char_of (int (length body) + 5), sq] @ body) \<rparr>,
     nt\<lparr>incoming := rest\<rparr>, st)"
proof -
  let ?hd = "[HEADER_START, kind, char_of (int (length body) + 5), sq]"
  let ?ck = "char_of (crc8_func (?hd @ body))"
  have w: "wire kind sq body = ?hd @ body @ [?ck]"
    by (simp add: wire_def Let_def)
  have r1: "recv (nat LENGTH_HEADER) nt = (Inr ?hd, nt\<lparr>incoming := Chunk (body @ [?ck]) # rest\<rparr>)"
    using assms(2) by (simp add: w LENGTH_HEADER_def)
  have n: "nat (of_char (char_of (int (length body) + 5)) - LENGTH_HEADER) = Suc (length body)"
    using assms(3) by (simp add: LENGTH_HEADER_def)
  have r2: "recv (Suc (length body)) (nt\<lparr>incoming := Chunk (body @ [?ck]) # rest\<rparr>)
      = (Inr (body @ [?ck]), nt\<lparr>incoming := rest\<rparr>)"
    by simp
  have nn: "\<not> of_char (char_of (int (length body) + 5)) - LENGTH_HEADER < 0"
    using assms(3) by (simp add: LENGTH_HEADER_def)
  show ?thesis
    unfolding read_frame_def
    using assms(1) nn
    by (simp only: r1 n r2 prod.case sum.case list.case if_False if_True not_True_eq_False Let_def)
       (simp add: HEADER_START_def of_char_crc del: of_char_of)
qed


lemma sendcommandbody_ok:
  assumes "sock st" and "0 \<le> nextseq st" and "nextseq st \<le> 256" and "length body \<le> 250"
    and "n = (if nextseq st = 256 then 0 else nextseq st)"
  shows "sendcommandbody body nt st =
    (Inr (), send (wire HEADER_TYPE_COMMAND (char_of n) body) nt,
     st\<lparr>nextseq := n + 1, last_sequence := Some (char_of n),
        last_command := Some (wire HEADER_TYPE_COMMAND (char_of n) body)\<rparr>)"
proof -
  have g: "getnextseq st = (n, st\<lparr>nextseq := n + 1\<rparr>)"
    using assms(5) by (simp add: getnextseq_def Let_def)
  have c: "chr_py n = Inr (char_of n)"
    using assms(2,3,5) by (simp add: chr_py_def)
  show ?thesis
    unfolding sendcommandbody_def
    using assms(1)
    by (simp only: g c prod.case sum.case chr_py_len [OF assms(4)] chr_py_crc Let_def)
       (simp add: wire_def Let_def)
qed

lemma recv_step_response:
  assumes "sock st" and "incoming nt = Chunk (wire HEADER_TYPE_RESPONSE sq body) # rest"
    and "length body \<le> 250" and "last_sequence st = Some ls"
  shows "recv_step h nt st =
    (if sq \<noteq> ls then (Return None, nt\<lparr>incoming := rest\<rparr>, log (LogResponseSeq ls sq) st)
     else (Return (Some body), nt\<lparr>incoming := rest\<rparr>, st))"
  using assms(4)
  by (simp add: recv_step_def read_frame_wire [OF assms(1-3)] check_sequence_def
      dispatch_frame_def HEADER_TYPE_RESPONSE_def HEADER_TYPE_COMMAND_def)

lemma recvresponse_response:
  assumes "sock st" and "incoming nt = Chunk (wire HEADER_TYPE_RESPONSE sq body) # rest"
    and "length body \<le> 250" and "last_sequence st = Some ls"
  shows "recvresponse h nt st =
    (if sq \<noteq> ls then (Inr None, nt\<lparr>incoming := rest\<rparr>, log (LogResponseSeq ls sq) st)
     else (Inr (Some body), nt\<lparr>incoming := rest\<rparr>, st))"
  by (subst recvresponse.simps) (simp add: recv_step_response [OF assms])

lemma recvresponse_timeout:
  assumes "sock st" and "incoming nt = [] \<or> hd (incoming nt) = Timeout"
  shows "recvresponse h nt st = (Inl SocketTimeout, nt\<lparr>incoming := tl (incoming nt)\<rparr>, st)"
proof -
  have "recv (nat LENGTH_HEADER) nt = (Inl SocketTimeout, nt\<lparr>incoming := tl (incoming nt)\<rparr>)"
    using assms(2) by (cases "incoming nt") (auto simp: LENGTH_HEADER_def)
  then have "recv_step h nt st = (Raise SocketTimeout, nt\<lparr>incoming := tl (incoming nt)\<rparr>, st)"
    using assms(1) by (simp add: recv_step_def read_frame_def del: recv.simps)
  then show ?thesis
    by (subst recvresponse.simps) simp
qed


lemma retry_loop_timeouts:
  assumes "sock st" and "last_command st = Some data"
    and "set (take k (incoming nt)) \<subseteq> {Timeout}"
  shows "retry_loop k h nt st =
    (Inr None,
     nt\<lparr>incoming := drop k (incoming nt), sent := sent nt @ replicate k data\<rparr>,
     st\<lparr>logs := logs st @ replicate k LogTimeoutResend\<rparr>)"
  using assms
proof (induction k arbitrary: nt st)
  case 0
  then show ?case by simp
next
  case (Suc k)
  let ?nt1 = "nt\<lparr>incoming := tl (incoming nt)\<rparr>"
  let ?st2 = "log LogTimeoutResend st"
  from Suc.prems(3) have hd: "incoming nt = [] \<or> hd (incoming nt) = Timeout"
    by (cases "incoming nt") auto
  have rr: "recvresponse h nt st = (Inl SocketTimeout, ?nt1, st)"
    by (rule recvresponse_timeout [OF Suc.prems(1) hd])
  have tk: "set (take k (incoming (send data ?nt1))) \<subseteq> {Timeout}"
    using Suc.prems(3) by (cases "incoming nt") (auto simp: send_def)
  have s2: "sock ?st2" "last_command ?st2 = Some data"
    using Suc.prems(1,2) by (simp_all add: log_def)
  have "retry_loop (Suc k) h nt st = retry_loop k h (send data ?nt1) ?st2"
    using s2 by (simp add: rr Let_def)
  also have "\<dots> = (Inr None,
      (send data ?nt1)\<lparr>incoming := drop k (incoming (send data ?nt1)),
         sent := sent (send data ?nt1) @ replicate k data\<rparr>,
      ?st2\<lparr>logs := logs ?st2 @ replicate k LogTimeoutResend\<rparr>)"
    by (rule Suc.IH [OF s2 tk])
  also have "\<dots> = (Inr None,
      nt\<lparr>incoming := drop (Suc k) (incoming nt), sent := sent nt @ replicate (Suc k) data\<rparr>,
      st\<lparr>logs := logs st @ replicate (Suc k) LogTimeoutResend\<rparr>)"
    by (simp add: send_def log_def drop_Suc replicate_app_Cons_same)
  finally show ?case .
qed

lemma sendcommand_all_timeouts:
  assumes "sock st" and "0 \<le> nextseq st" and "nextseq st \<le> 256"
    and "body = (case b of None \<Rightarrow> [cmd] | Some x \<Rightarrow> if x \<noteq> [] then cmd # x else [cmd])"
    and "length body \<le> 250"
    and "set (take 3 (incoming nt)) \<subseteq> {Timeout}"
    and "n = (if nextseq st = 256 then 0 else nextseq st)"
    and "data = wire HEADER_TYPE_COMMAND (char_of n) body"
  shows "sendcommand h cmd b nt st =
    (Inl UnboundLocalError,
     nt\<lparr>incoming := drop 3 (incoming nt), sent := sent nt @ replicate 4 data\<rparr>,
     st\<lparr>nextseq := n + 1, last_sequence := Some (char_of n), last_command := Some data,
        logs := logs st @ replicate 3 LogTimeoutResend\<rparr>)"
proof -
  let ?st1 = "st\<lparr>nextseq := n + 1, last_sequence := Some (char_of n), last_command := Some data\<rparr>"
  have scb: "sendcommandbody body nt st = (Inr (), send data nt, ?st1)"
    using sendcommandbody_ok [OF assms(1,2,3,5,7)] assms(8) by simp
  have tk: "set (take 3 (incoming (send data nt))) \<subseteq> {Timeout}"
    using assms(6) by (simp add: send_def)
  have rl: "retry_loop 3 h (send data nt) ?st1 =
      (Inr None,
       (send data nt)\<lparr>incoming := drop 3 (incoming (send data nt)),
          sent := sent (send data nt) @ replicate 3 data\<rparr>,
       ?st1\<lparr>logs := logs ?st1 @ replicate 3 LogTimeoutResend\<rparr>)"
    by (rule retry_loop_timeouts [OF _ _ tk]) (simp_all add: assms(1))
  show ?thesis
    unfolding sendcommand_def
    by (simp only: assms(4) [symmetric] Let_def scb rl prod.case sum.case option.case)
       (simp add: send_def numeral_eq_Suc)
qed


lemma sendcommand_response:
  assumes "sock st" and "0 \<le> nextseq st" and "nextseq st \<le> 256"
    and "body = (case b of None \<Rightarrow> [cmd] | Some x \<Rightarrow> if x \<noteq> [] then cmd # x else [cmd])"
    and "length body \<le> 250"
    and "incoming nt = Chunk (wire HEADER_TYPE_RESPONSE sq resp) # rest"
    and "length resp \<le> 250"
    and "n = (if nextseq st = 256 then 0 else nextseq st)"
    and "data = wire HEADER_TYPE_COMMAND (char_of n) body"
    and "st1 = st\<lparr>nextseq := n + 1, last_sequence := Some (char_of n), last_command := Some data\<rparr>"
    and "nt1 = nt\<lparr>incoming := rest, sent := sent nt @ [data]\<rparr>"
  shows "sendcommand h cmd b nt st =
    (if sq \<noteq> char_of n then (Inl TypeError, nt1, log (LogResponseSeq (char_of n) sq) st1)
     else check_response cmd resp nt1 st1)"
proof -
  have scb: "sendcommandbody body nt st = (Inr (), send data nt, st1)"
    using sendcommandbody_ok [OF assms(1,2,3,5,8)] assms(9,10) by simp
  have inc: "incoming (send data nt) = Chunk (wire HEADER_TYPE_RESPONSE sq resp) # rest"
    using assms(6) by (simp add: send_def)
  have s1: "sock st1" "last_sequence st1 = Some (char_of n)"
    using assms(1,10) by simp_all
  have rr: "recvresponse h (send data nt) st1 =
      (if sq \<noteq> char_of n then (Inr None, nt1, log (LogResponseSeq (char_of n) sq) st1)
       else (Inr (Some resp), nt1, st1))"
    using recvresponse_response [OF s1(1) inc assms(7) s1(2), of h]
    by (simp add: send_def assms(11))
  have rl: "retry_loop 3 h (send data nt) st1 =
      (if sq \<noteq> char_of n then (Inr (Some None), nt1, log (LogResponseSeq (char_of n) sq) st1)
       else (Inr (Some (Some resp)), nt1, st1))"
    by (simp add: numeral_eq_Suc rr)
  show ?thesis
    unfolding sendcommand_def check_response_def
    by (simp only: assms(4) [symmetric] Let_def scb rl prod.case sum.case option.case)
       (simp split: list.splits)
qed

section \<open>Properties of the event decoder\<close>

lemma and3_range: "0 \<le> (x::int) AND 3 \<and> x AND 3 < 4"
proof -
  have "x AND 3 \<le> 3" by (rule AND_upper2) simp
  moreover have "0 \<le> x AND 3" by simp
  ultimately show ?thesis by simp
qed

lemma zone_names_base: "\<exists>base. index_py zone_names (x AND 3) = Inr base"
  using and3_range [of x] by (simp add: index_py_def zone_names_def)

text \<open>
  Claim C9. A zone event carries the zone number in one byte (payload of two bytes) or
  in two bytes, low byte first (payload of three bytes). When that number is not a key of
  the zone registry, \<open>debug_print_message\<close> raises \<open>KeyError\<close> with nothing logged,
  and so does \<open>message_handler\<close>; whenever \<open>debug_print_message\<close> gets through a
  zone event without an exception, the zone number is in the registry.
\<close>

theorem zone_event_unknown_zone:
  assumes "pl = [a, b] \<and> zn = of_char a \<or> pl = [a, b, c] \<and> zn = of_char a + 256 * of_char b"
  shows "(zone st zn = None \<longrightarrow>
            debug_print_message (MSG_ZONEEVENT # pl) st = (Some KeyError, st) \<and>
            message_handler (MSG_ZONEEVENT # pl) st = (Some KeyError, st)) \<and>
         (fst (debug_print_message (MSG_ZONEEVENT # pl) st) = None \<longrightarrow> zn \<in> dom (zone st))"
proof -
  from assms have dec:
    "(if length pl = 2 then Some (of_char (pl ! 0), of_char (pl ! 1))
      else if length pl = 3
        then Some (of_char (pl ! 0) + push_bit 8 (of_char (pl ! 1)), of_char (pl ! 2))
      else None) = Some (zn, of_char (last pl) :: int)"
    by (auto simp: push_bit_eq_mult)
  obtain base where base: "index_py zone_names (of_char (last pl) AND 3) = Inr base"
    using zone_names_base by blast
  have dpm: "debug_print_message (MSG_ZONEEVENT # pl) st =
      (case zone st zn of None \<Rightarrow> (Some KeyError, st)
       | Some zd \<Rightarrow> (None, log (LogZoneEvent zn (ztext zd) (base @ zone_flags (of_char (last pl)))) st))"
    unfolding debug_print_message_def
    by (simp only: list.case dec option.case prod.case base sum.case Let_def)
       (simp add: MSG_ZONEEVENT_def MSG_DEBUG_def)
  show ?thesis
    by (auto simp: dpm message_handler_def split: option.splits)
qed

text \<open>
  Claim C10. The state byte of an area event indexes a list of six names and the method
  byte of a user event a list of three, with no bounds check: a state byte of 6 or more,
  and a method byte of 3 or more, end \<open>debug_print_message\<close> with \<open>IndexError\<close> and
  nothing logged.
\<close>

theorem area_user_state_out_of_range:
  "((6::int) \<le> of_char b1 \<longrightarrow>
      debug_print_message (MSG_AREAEVENT # b0 # b1 # rest) st = (Some IndexError, st)) \<and>
   ((3::int) \<le> of_char b1 \<longrightarrow>
      debug_print_message (MSG_USEREVENT # b0 # b1 # rest) st = (Some IndexError, st))"
  by (simp add: debug_print_message_def index_py_def area_names_def user_names_def
      MSG_DEBUG_def MSG_ZONEEVENT_def MSG_AREAEVENT_def MSG_OUTPUTEVENT_def MSG_USEREVENT_def)


theorem zone_event_unknown_zone_witness:
  "zone init_state 5 = None \<and>
   debug_print_message [MSG_ZONEEVENT, CHR 0x05, CHR 0x01] init_state = (Some KeyError, init_state) \<and>
   message_handler [MSG_ZONEEVENT, CHR 0x05, CHR 0x01] init_state = (Some KeyError, init_state) \<and>
   fst (debug_print_message [MSG_ZONEEVENT, CHR 0x05, CHR 0x01]
         (init_state\<lparr>zone := [5 \<mapsto> \<lparr>ztype = 1, areas = 1, ztext = ''Hall''\<rparr>]\<rparr>)) = None \<and>
   5 \<in> dom (zone (init_state\<lparr>zone := [5 \<mapsto> \<lparr>ztype = 1, areas = 1, ztext = ''Hall''\<rparr>]\<rparr>))"
proof -
  have dec: "[CHR 0x05, CHR 0x01] = [CHR 0x05, CHR 0x01] \<and> (5::int) = of_char (CHR 0x05) \<or>
      [CHR 0x05, CHR 0x01] = [CHR 0x05, CHR 0x01, c] \<and> (5::int) = of_char (CHR 0x05) + 256 * of_char (CHR 0x01)" for c
    by simp
  have absent: "zone init_state 5 = None"
    by (simp add: init_state_def)
  have ok: "fst (debug_print_message [MSG_ZONEEVENT, CHR 0x05, CHR 0x01]
         (init_state\<lparr>zone := [5 \<mapsto> \<lparr>ztype = 1, areas = 1, ztext = ''Hall''\<rparr>]\<rparr>)) = None"
    by (simp add: debug_print_message_def MSG_ZONEEVENT_def MSG_DEBUG_def index_py_def
        zone_names_def)
  from zone_event_unknown_zone [OF dec, of init_state] absent
    zone_event_unknown_zone [OF dec,
      of "init_state\<lparr>zone := [5 \<mapsto> \<lparr>ztype = 1, areas = 1, ztext = ''Hall''\<rparr>]\<rparr>"] ok
  show ?thesis by blast
qed

theorem area_user_state_out_of_range_witness:
  "(6::int) \<le> of_char (CHR 0x06) \<and>
   debug_print_message [MSG_AREAEVENT, CHR 0x01, CHR 0x06] init_state = (Some IndexError, init_state) \<and>
   (3::int) \<le> of_char (CHR 0x03) \<and>
   debug_print_message [MSG_USEREVENT, CHR 0x01, CHR 0x03] init_state = (Some IndexError, init_state)"
  using area_user_state_out_of_range [of "CHR 0x06" "CHR 0x01" "[]" init_state]
    area_user_state_out_of_range [of "CHR 0x03" "CHR 0x01" "[]" init_state]
  by simp

section \<open>Properties of the command exchange\<close>

lemma char_of_0: "char_of (0::int) = CHR 0x00"
  by (simp add: char_of_def)

text \<open>
  Claim C1. An exchange in which every read times out: the command frame is sent once by
  \<open>sendcommandbody\<close> and once more after each of the three timed-out reads, the same
  bytes with the same sequence number each time (four transmissions), and the frame and
  its sequence number stay remembered in \<open>last_command\<close> and \<open>last_sequence\<close>.
  The loop then ends with \<open>response\<close> never assigned, so what reaches the caller is
  the \<open>UnboundLocalError\<close> of \<open>response[0]\<close>, not a timeout.
\<close>

theorem sendcommand_timeouts_exhausted:
  assumes "sock st" and "0 \<le> nextseq st" and "nextseq st \<le> 256"
    and "body = (case b of None \<Rightarrow> [cmd] | Some x \<Rightarrow> if x \<noteq> [] then cmd # x else [cmd])"
    and "length body \<le> 250"
    and "set (take 3 (incoming nt)) \<subseteq> {Timeout}"
    and "n = (if nextseq st = 256 then 0 else nextseq st)"
    and "data = wire HEADER_TYPE_COMMAND (char_of n) body"
    and "sendcommand h cmd b nt st = (r, nt', st')"
  shows "r = Inl UnboundLocalError \<and>
         sent nt' = sent nt @ [data, data, data, data] \<and>
         incoming nt' = drop 3 (incoming nt) \<and>
         last_command st' = Some data \<and> last_sequence st' = Some (char_of n) \<and>
         logs st' = logs st @ [LogTimeoutResend, LogTimeoutResend, LogTimeoutResend]"
  using sendcommand_all_timeouts [OF assms(1-8), of h] assms(9)
  by (auto simp: numeral_eq_Suc)

theorem sendcommand_timeouts_exhausted_witness:
  "fst (sendcommand message_handler CMD_GETDATETIME None
         \<lparr>incoming = [Timeout, Timeout, Timeout], sent = []\<rparr> init_state) = Inl UnboundLocalError \<and>
   sent (fst (snd (sendcommand message_handler CMD_GETDATETIME None
         \<lparr>incoming = [Timeout, Timeout, Timeout], sent = []\<rparr> init_state))) =
     [wire HEADER_TYPE_COMMAND (CHR 0x00) [CMD_GETDATETIME],
      wire HEADER_TYPE_COMMAND (CHR 0x00) [CMD_GETDATETIME],
      wire HEADER_TYPE_COMMAND (CHR 0x00) [CMD_GETDATETIME],
      wire HEADER_TYPE_COMMAND (CHR 0x00) [CMD_GETDATETIME]]"
proof -
  obtain r nt' st' where run: "sendcommand message_handler CMD_GETDATETIME None
         \<lparr>incoming = [Timeout, Timeout, Timeout], sent = []\<rparr> init_state = (r, nt', st')"
    by (rule prod_cases3)
  have "r = Inl UnboundLocalError \<and>
      sent nt' = sent \<lparr>incoming = [Timeout, Timeout, Timeout], sent = []\<rparr> @
        [wire HEADER_TYPE_COMMAND (CHR 0x00) [CMD_GETDATETIME],
         wire HEADER_TYPE_COMMAND (CHR 0x00) [CMD_GETDATETIME],
         wire HEADER_TYPE_COMMAND (CHR 0x00) [CMD_GETDATETIME],
         wire HEADER_TYPE_COMMAND (CHR 0x00) [CMD_GETDATETIME]]"
    using sendcommand_timeouts_exhausted [where st = init_state and b = None
        and cmd = CMD_GETDATETIME and body = "[CMD_GETDATETIME]" and n = 0
        and nt = "\<lparr>incoming = [Timeout, Timeout, Timeout], sent = []\<rparr>"
        and data = "wire HEADER_TYPE_COMMAND (CHR 0x00) [CMD_GETDATETIME]", OF _ _ _ _ _ _ _ _ run]
    by (simp add: init_state_def char_of_0)
  then show ?thesis by (simp add: run)
qed

lemma recvresponse_command:
  assumes "sock st" and "incoming nt = Chunk (wire HEADER_TYPE_COMMAND sq body) # rest"
    and "length body \<le> 250"
  shows "recvresponse h nt st = (Inr None, nt\<lparr>incoming := rest\<rparr>, log LogUnexpectedCommand st)"
proof -
  have "recv_step h nt st = (Return None, nt\<lparr>incoming := rest\<rparr>, log LogUnexpectedCommand st)"
    by (simp add: recv_step_def read_frame_wire [OF assms] check_sequence_def dispatch_frame_def
        HEADER_TYPE_RESPONSE_def HEADER_TYPE_COMMAND_def HEADER_TYPE_MESSAGE_def)
  then show ?thesis
    by (subst recvresponse.simps) simp
qed

text \<open>
  Claim C4. A command with a payload of at most 250 bytes is sent as marker \<open>t\<close>,
  type \<open>C\<close>, length byte (payload length plus 5), sequence byte, payload and the
  CRC-8 of all bytes before it. Fed back to the receiving side, those bytes pass the start
  marker and checksum checks with marker, type, length, sequence and payload read back
  unchanged; \<open>recvresponse\<close> then rejects the frame as an unexpected command (the
  log line is that one, not a marker or checksum complaint) and returns \<open>None\<close>:
  the program has no path that hands a decoded command frame back.
\<close>

theorem command_frame_roundtrip:
  assumes "sock st" and "0 \<le> nextseq st" and "nextseq st \<le> 256" and "length body \<le> 250"
    and "sq = char_of (if nextseq st = 256 then 0 else nextseq st)"
    and "header = [CHR ''t'', CHR ''C'', char_of (int (length body) + 5), sq]"
    and "data = header @ body @ [char_of (crc8_func (header @ body))]"
    and "sendcommandbody body nt st = (r, nt1, st1)"
  shows "r = Inr () \<and> sent nt1 = sent nt @ [data] \<and> last_command st1 = Some data \<and>
         last_sequence st1 = Some sq \<and>
         read_frame \<lparr>incoming = [Chunk data], sent = []\<rparr> st1 =
           (Next \<lparr> msg_start = CHR ''t'', msg_type = CHR ''C'',
                   msg_length = char_of (int (length body) + 5), msg_sequence = sq,
                   payload = body, msg_crc = crc8_func (header @ body) \<rparr>,
            \<lparr>incoming = [], sent = []\<rparr>, st1) \<and>
         of_char (char_of (int (length body) + 5)) = int (length body) + 5 \<and>
         recvresponse h \<lparr>incoming = [Chunk data], sent = []\<rparr> st1 =
           (Inr None, \<lparr>incoming = [], sent = []\<rparr>, log LogUnexpectedCommand st1)"
proof -
  define n where "n = (if nextseq st = 256 then 0 else nextseq st)"
  have data: "data = wire HEADER_TYPE_COMMAND (char_of n) body"
    by (simp add: assms(5,6,7) n_def wire_def Let_def HEADER_START_def HEADER_TYPE_COMMAND_def)
  let ?st1 = "st\<lparr>nextseq := n + 1, last_sequence := Some (char_of n), last_command := Some data\<rparr>"
  have scb: "sendcommandbody body nt st = (Inr (), send data nt, ?st1)"
    unfolding data by (rule sendcommandbody_ok [OF assms(1-4) n_def])
  have rf: "read_frame \<lparr>incoming = [Chunk data], sent = []\<rparr> ?st1 =
      (Next \<lparr> msg_start = HEADER_START, msg_type = HEADER_TYPE_COMMAND,
            msg_length = char_of (int (length body) + 5), msg_sequence = char_of n,
            payload = body,
            msg_crc = crc8_func ([HEADER_START, HEADER_TYPE_COMMAND, char_of (int (length body) + 5), char_of n] @ body) \<rparr>,
       \<lparr>incoming = [Chunk data], sent = []\<rparr>\<lparr>incoming := []\<rparr>, ?st1)"
    by (rule read_frame_wire) (simp_all add: assms(1,4) data)
  have rr: "recvresponse h \<lparr>incoming = [Chunk data], sent = []\<rparr> ?st1 =
      (Inr None, \<lparr>incoming = [Chunk data], sent = []\<rparr>\<lparr>incoming := []\<rparr>, log LogUnexpectedCommand ?st1)"
    by (rule recvresponse_command [where sq = "char_of n" and body = body and rest = "[]"])
       (simp_all add: assms(1,4) data)
  from scb assms(8) have eqs: "r = Inr ()" "nt1 = send data nt" "st1 = ?st1" by simp_all
  have sq: "sq = char_of n" by (simp add: assms(5) n_def)
  have hd: "header = [HEADER_START, HEADER_TYPE_COMMAND, char_of (int (length body) + 5), char_of n]"
    by (simp add: assms(6) sq HEADER_START_def HEADER_TYPE_COMMAND_def)
  have rr': "recvresponse h \<lparr>incoming = [Chunk data], sent = []\<rparr> st1 =
           (Inr None, \<lparr>incoming = [], sent = []\<rparr>, log LogUnexpectedCommand st1)"
    using rr by (simp add: eqs)
  show ?thesis
    using rf of_char_len [OF assms(4)] rr'
    by (simp add: eqs send_def sq hd HEADER_START_def HEADER_TYPE_COMMAND_def del: of_char_of)
qed

theorem command_frame_roundtrip_witness:
  "fst (sendcommandbody (CMD_LOGIN # ''1234'') \<lparr>incoming = [], sent = []\<rparr> init_state) = Inr () \<and>
   read_frame
     \<lparr>incoming = [Chunk ([CHR ''t'', CHR ''C'', char_of (int (length (CMD_LOGIN # ''1234'')) + 5), CHR 0x00]
         @ (CMD_LOGIN # ''1234'')
         @ [char_of (crc8_func ([CHR ''t'', CHR ''C'', char_of (int (length (CMD_LOGIN # ''1234'')) + 5), CHR 0x00]
              @ (CMD_LOGIN # ''1234'')))])], sent = []\<rparr>
     (snd (snd (sendcommandbody (CMD_LOGIN # ''1234'') \<lparr>incoming = [], sent = []\<rparr> init_state))) =
   (Next \<lparr> msg_start = CHR ''t'', msg_type = CHR ''C'',
           msg_length = char_of (int (length (CMD_LOGIN # ''1234'')) + 5), msg_sequence = CHR 0x00,
           payload = CMD_LOGIN # ''1234'',
           msg_crc = crc8_func ([CHR ''t'', CHR ''C'', char_of (int (length (CMD_LOGIN # ''1234'')) + 5), CHR 0x00]
              @ (CMD_LOGIN # ''1234'')) \<rparr>,
    \<lparr>incoming = [], sent = []\<rparr>,
    snd (snd (sendcommandbody (CMD_LOGIN # ''1234'') \<lparr>incoming = [], sent = []\<rparr> init_state))) \<and>
   recvresponse message_handler
     \<lparr>incoming = [Chunk ([CHR ''t'', CHR ''C'', char_of (int (length (CMD_LOGIN # ''1234'')) + 5), CHR 0x00]
         @ (CMD_LOGIN # ''1234'')
         @ [char_of (crc8_func ([CHR ''t'', CHR ''C'', char_of (int (length (CMD_LOGIN # ''1234'')) + 5), CHR 0x00]
              @ (CMD_LOGIN # ''1234'')))])], sent = []\<rparr>
     (snd (snd (sendcommandbody (CMD_LOGIN # ''1234'') \<lparr>incoming = [], sent = []\<rparr> init_state))) =
   (Inr None, \<lparr>incoming = [], sent = []\<rparr>,
    log LogUnexpectedCommand
      (snd (snd (sendcommandbody (CMD_LOGIN # ''1234'') \<lparr>incoming = [], sent = []\<rparr> init_state))))"
proof -
  obtain r nt1 st1 where run:
    "sendcommandbody (CMD_LOGIN # ''1234'') \<lparr>incoming = [], sent = []\<rparr> init_state = (r, nt1, st1)"
    by (rule prod_cases3)
  have pre: "sock init_state" "0 \<le> nextseq init_state" "nextseq init_state \<le> 256"
    "length (CMD_LOGIN # ''1234'') \<le> 250"
    "CHR 0x00 = char_of (if nextseq init_state = 256 then 0 else nextseq init_state)"
    by (simp_all add: init_state_def char_of_0)
  from command_frame_roundtrip [OF pre refl refl run, of message_handler] show ?thesis
    by (simp add: run)
qed

text \<open>
  Claim C4 as stated has the decoder yield the frame. The only decoder of the program,
  \<open>recvresponse\<close>, given the bytes of a login command just sent, returns
  \<open>None\<close>.
\<close>

theorem command_frame_roundtrip_counterexample:
  "sent (fst (snd (sendcommandbody (CMD_LOGIN # ''1234'') \<lparr>incoming = [], sent = []\<rparr> init_state))) =
     [wire HEADER_TYPE_COMMAND (CHR 0x00) (CMD_LOGIN # ''1234'')] \<and>
   fst (recvresponse message_handler
     \<lparr>incoming = [Chunk (wire HEADER_TYPE_COMMAND (CHR 0x00) (CMD_LOGIN # ''1234''))], sent = []\<rparr>
     (snd (snd (sendcommandbody (CMD_LOGIN # ''1234'') \<lparr>incoming = [], sent = []\<rparr> init_state)))) =
     Inr None"
proof -
  have scb: "sendcommandbody (CMD_LOGIN # ''1234'') \<lparr>incoming = [], sent = []\<rparr> init_state =
      (Inr (), send (wire HEADER_TYPE_COMMAND (CHR 0x00) (CMD_LOGIN # ''1234'')) \<lparr>incoming = [], sent = []\<rparr>,
       init_state\<lparr>nextseq := 0 + 1, last_sequence := Some (CHR 0x00),
         last_command := Some (wire HEADER_TYPE_COMMAND (CHR 0x00) (CMD_LOGIN # ''1234''))\<rparr>)"
    using sendcommandbody_ok [where st = init_state and n = 0 and body = "CMD_LOGIN # ''1234''"
        and nt = "\<lparr>incoming = [], sent = []\<rparr>"]
    by (simp add: init_state_def char_of_0)
  have rr: "fst (recvresponse message_handler
     \<lparr>incoming = [Chunk (wire HEADER_TYPE_COMMAND (CHR 0x00) (CMD_LOGIN # ''1234''))], sent = []\<rparr>
     (init_state\<lparr>nextseq := 0 + 1, last_sequence := Some (CHR 0x00),
         last_command := Some (wire HEADER_TYPE_COMMAND (CHR 0x00) (CMD_LOGIN # ''1234''))\<rparr>)) = Inr None"
    by (subst recvresponse_command [where sq = "CHR 0x00" and body = "CMD_LOGIN # ''1234''" and rest = "[]"])
       (simp_all add: init_state_def)
  show ?thesis
    by (simp only: scb rr snd_conv fst_conv) (simp add: send_def)
qed

lemma sendcommand_first_response:
  assumes "body = (case b of None \<Rightarrow> [cmd] | Some x \<Rightarrow> if x \<noteq> [] then cmd # x else [cmd])"
    and "length body \<le> 250" and "length resp \<le> 250"
    and "data = wire HEADER_TYPE_COMMAND (CHR 0x00) body"
  shows "sendcommand h cmd b \<lparr>incoming = Chunk (wire HEADER_TYPE_RESPONSE (CHR 0x00) resp) # rest, sent = []\<rparr> init_state =
    check_response cmd resp \<lparr>incoming = rest, sent = [data]\<rparr>
      (init_state\<lparr>nextseq := 1, last_sequence := Some (CHR 0x00), last_command := Some data\<rparr>)"
  using sendcommand_response [where st = init_state and n = 0 and h = h and cmd = cmd and b = b
      and body = body and sq = "CHR 0x00" and resp = resp and rest = rest and data = data
      and nt = "\<lparr>incoming = Chunk (wire HEADER_TYPE_RESPONSE (CHR 0x00) resp) # rest, sent = []\<rparr>",
      OF _ _ _ assms(1,2) _ assms(3) _ _ refl refl]
  by (simp add: init_state_def char_of_0 assms(4))

lemma login_first_response:
  "sendcommand h CMD_LOGIN (Some ''1234'')
     \<lparr>incoming = [Chunk (wire HEADER_TYPE_RESPONSE (CHR 0x00) [CMD_LOGIN, x])], sent = []\<rparr> init_state =
   (Inr (Some [x]), \<lparr>incoming = [], sent = [wire HEADER_TYPE_COMMAND (CHR 0x00) (CMD_LOGIN # ''1234'')]\<rparr>,
    init_state\<lparr>nextseq := 1, last_sequence := Some (CHR 0x00),
       last_command := Some (wire HEADER_TYPE_COMMAND (CHR 0x00) (CMD_LOGIN # ''1234''))\<rparr>)"
  by (simp add: sendcommand_first_response [where body = "CMD_LOGIN # ''1234''", OF _ _ _ refl]
      check_response_def)


text \<open>
  Claim C3. When the response to a zone query carries fewer than 34 bytes,
  \<open>get_zone_details\<close> logs the wrong-length message and then raises \<open>NameError\<close>
  from the log call that names the undefined \<open>payload\<close>; no zone tuple is produced
  and the response is not indexed.
\<close>


theorem get_zone_details_short_payload:
  assumes "0 \<le> zn" and "zn < 256"
    and "sendcommand h CMD_GETZONEDETAILS (Some [char_of zn]) nt st = (Inr (Some details), nt1, st1)"
    and "length details < 34"
  shows "get_zone_details h zn nt st =
           (Inl NameError, nt1, log (LogWrongLength ''GETZONEDETAILS'') st1)"
  using assms by (simp add: get_zone_details_def chr_py_def)

theorem get_zone_details_short_payload_witness:
  "get_zone_details message_handler 1
     \<lparr>incoming = [Chunk (wire HEADER_TYPE_RESPONSE (CHR 0x00) (CMD_GETZONEDETAILS # ''01234567890123456789''))],
      sent = []\<rparr> init_state =
   (Inl NameError,
    \<lparr>incoming = [], sent = [wire HEADER_TYPE_COMMAND (CHR 0x00) [CMD_GETZONEDETAILS, CHR 0x01]]\<rparr>,
    log (LogWrongLength ''GETZONEDETAILS'')
      (init_state\<lparr>nextseq := 1, last_sequence := Some (CHR 0x00),
         last_command := Some (wire HEADER_TYPE_COMMAND (CHR 0x00) [CMD_GETZONEDETAILS, CHR 0x01])\<rparr>))"
proof -
  have c1: "char_of (1::int) = CHR 0x01"
    by (simp add: char_of_def)
  have sc: "sendcommand message_handler CMD_GETZONEDETAILS (Some [char_of (1::int)])
     \<lparr>incoming = [Chunk (wire HEADER_TYPE_RESPONSE (CHR 0x00) (CMD_GETZONEDETAILS # ''01234567890123456789''))],
      sent = []\<rparr> init_state =
    (Inr (Some ''01234567890123456789''),
     \<lparr>incoming = [], sent = [wire HEADER_TYPE_COMMAND (CHR 0x00) [CMD_GETZONEDETAILS, CHR 0x01]]\<rparr>,
     init_state\<lparr>nextseq := 1, last_sequence := Some (CHR 0x00),
         last_command := Some (wire HEADER_TYPE_COMMAND (CHR 0x00) [CMD_GETZONEDETAILS, CHR 0x01])\<rparr>)"
    by (simp add: sendcommand_first_response [where body = "[CMD_GETZONEDETAILS, CHR 0x01]", OF _ _ _ refl]
        check_response_def c1)
  show ?thesis
    by (rule get_zone_details_short_payload [OF _ _ sc]) simp_all
qed

text \<open>
  Claim C5. When the login exchange returns a payload, \<open>login\<close> gives \<open>True\<close>
  for the ACK byte, \<open>False\<close> for the NAK byte, and \<open>False\<close> again, after logging
  the unexpected byte, for every other one-byte payload.
\<close>


theorem login_result:
  assumes "sendcommand h CMD_LOGIN (Some udl) nt st = (Inr (Some pl), nt1, st1)"
  shows "(pl = CMD_RESPONSE_ACK \<longrightarrow> login h udl nt st = (Inr True, nt1, st1)) \<and>
         (pl = CMD_RESPONSE_NAK \<longrightarrow> login h udl nt st = (Inr False, nt1, log LogNak st1)) \<and>
         (pl \<noteq> CMD_RESPONSE_ACK \<and> pl \<noteq> CMD_RESPONSE_NAK \<and> pl = [c] \<longrightarrow>
            login h udl nt st = (Inr False, nt1, log (LogUnexpectedAck c) st1))"
  by (auto simp: login_def assms CMD_RESPONSE_ACK_def CMD_RESPONSE_NAK_def)

theorem login_result_witness:
  "fst (login message_handler ''1234''
     \<lparr>incoming = [Chunk (wire HEADER_TYPE_RESPONSE (CHR 0x00) [CMD_LOGIN, CHR 0x06])], sent = []\<rparr>
     init_state) = Inr True \<and>
   fst (login message_handler ''1234''
     \<lparr>incoming = [Chunk (wire HEADER_TYPE_RESPONSE (CHR 0x00) [CMD_LOGIN, CHR 0x15])], sent = []\<rparr>
     init_state) = Inr False \<and>
   fst (login message_handler ''1234''
     \<lparr>incoming = [Chunk (wire HEADER_TYPE_RESPONSE (CHR 0x00) [CMD_LOGIN, CHR 0x41])], sent = []\<rparr>
     init_state) = Inr False"
  using login_result [OF login_first_response [of message_handler "CHR 0x06"], of "CHR 0x06"]
    login_result [OF login_first_response [of message_handler "CHR 0x15"], of "CHR 0x15"]
    login_result [OF login_first_response [of message_handler "CHR 0x41"], of "CHR 0x41"]
  by (simp add: CMD_RESPONSE_ACK_def CMD_RESPONSE_NAK_def)

text \<open>
  Claim C5 as stated has every payload other than ACK and NAK end in an error and not
  in a boolean. The byte 0x07 ends in \<open>False\<close>.
\<close>


theorem login_other_payload_counterexample:
  "fst (login message_handler ''1234''
     \<lparr>incoming = [Chunk (wire HEADER_TYPE_RESPONSE (CHR 0x00) [CMD_LOGIN, CHR 0x07])], sent = []\<rparr>
     init_state) = Inr False"
  by (simp add: login_def login_first_response CMD_RESPONSE_ACK_def CMD_RESPONSE_NAK_def)

section \<open>Properties of the receive loop\<close>

lemma read_frame_bytes:
  assumes "sock st" and "incoming nt = Chunk ([m, ty, ln, sq] @ pay @ [ck]) # rest"
    and "of_char ln = int (length pay) + 5"
  shows "read_frame nt st =
    (if m \<noteq> CHR ''t'' then (Return None, nt\<lparr>incoming := rest\<rparr>, log (LogBadStart m) st)
     else if of_char ck \<noteq> crc8_func ([m, ty, ln, sq] @ pay)
       then (Return None, nt\<lparr>incoming := rest\<rparr>,
              log (LogBadCrc (crc8_func ([m, ty, ln, sq] @ pay)) (of_char ck)) st)
     else (Next \<lparr> msg_start = m, msg_type = ty, msg_length = ln, msg_sequence = sq,
                  payload = pay, msg_crc = of_char ck \<rparr>, nt\<lparr>incoming := rest\<rparr>, st))"
proof -
  let ?hd = "[m, ty, ln, sq]"
  have r1: "recv (nat LENGTH_HEADER) nt = (Inr ?hd, nt\<lparr>incoming := Chunk (pay @ [ck]) # rest\<rparr>)"
    using assms(2) by (simp add: LENGTH_HEADER_def)
  have n: "nat (of_char ln - LENGTH_HEADER) = Suc (length pay)"
    using assms(3) by (simp add: LENGTH_HEADER_def)
  have r2: "recv (Suc (length pay)) (nt\<lparr>incoming := Chunk (pay @ [ck]) # rest\<rparr>)
      = (Inr (pay @ [ck]), nt\<lparr>incoming := rest\<rparr>)"
    by simp
  have nn: "\<not> of_char ln - LENGTH_HEADER < 0"
    using assms(3) by (simp add: LENGTH_HEADER_def)
  show ?thesis
    unfolding read_frame_def
    using assms(1) nn
    by (simp only: r1 n r2 prod.case sum.case list.case if_False if_True not_True_eq_False Let_def)
       simp
qed

lemma char_of_eq_in_range:
  assumes "0 \<le> k" and "k < 256"
  shows "(sq = char_of (k::int)) = (of_char sq = k)"
  using assms by (auto simp: char_of_eq_iff take_bit_eq_mod)

lemma next_msg_seq_mod:
  assumes "0 \<le> (l::int)" and "l \<le> 255"
  shows "(if l + 1 = 256 then 0 else l + 1) = (l + 1) mod 256"
  using assms by auto

lemma check_sequence_message:
  assumes "msg_type f = HEADER_TYPE_MESSAGE"
    and "- 1 \<le> last_received_seq st" and "last_received_seq st \<le> 255"
  shows "check_sequence f st =
    (if last_received_seq st = - 1 \<or> of_char (msg_sequence f) = (last_received_seq st + 1) mod 256
     then (Next (), st\<lparr>last_received_seq := of_char (msg_sequence f)\<rparr>)
     else (Return None,
           log (LogMessageSeq ((last_received_seq st + 1) mod 256) (msg_sequence f)) st))"
proof (cases "last_received_seq st = - 1")
  case True
  then show ?thesis
    using assms(1)
    by (simp add: check_sequence_def HEADER_TYPE_MESSAGE_def HEADER_TYPE_RESPONSE_def)
next
  case False
  with assms(2,3) have rng: "0 \<le> last_received_seq st" "last_received_seq st \<le> 255"
    by simp_all
  let ?k = "(last_received_seq st + 1) mod 256"
  have k: "0 \<le> ?k" "?k < 256" by simp_all
  have c: "chr_py ?k = Inr (char_of ?k)"
    using k by (simp only: chr_py_def) simp
  have ne: "(msg_sequence f \<noteq> char_of ?k) = (of_char (msg_sequence f) \<noteq> ?k)"
    using char_of_eq_in_range [OF k] by simp
  show ?thesis
    unfolding check_sequence_def
    using assms(1) False
    by (simp only: next_msg_seq_mod [OF rng] Let_def c sum.case ne)
       (simp add: HEADER_TYPE_MESSAGE_def HEADER_TYPE_RESPONSE_def)
qed

lemma recv_step_message:
  assumes "sock st" and "incoming nt = Chunk (wire HEADER_TYPE_MESSAGE sq pay) # rest"
    and "length pay \<le> 250"
    and "- 1 \<le> last_received_seq st" and "last_received_seq st \<le> 255"
  shows "recv_step h nt st =
    (if last_received_seq st = - 1 \<or> of_char sq = (last_received_seq st + 1) mod 256
     then (case h pay (st\<lparr>last_received_seq := of_char sq\<rparr>) of
             (Some e, st1) \<Rightarrow> (Raise e, nt\<lparr>incoming := rest\<rparr>, st1)
           | (None, st1) \<Rightarrow> (Next (), nt\<lparr>incoming := rest\<rparr>, st1))
     else (Return None, nt\<lparr>incoming := rest\<rparr>,
           log (LogMessageSeq ((last_received_seq st + 1) mod 256) sq) st))"
proof -
  let ?f = "\<lparr> msg_start = HEADER_START, msg_type = HEADER_TYPE_MESSAGE,
            msg_length = char_of (int (length pay) + 5), msg_sequence = sq,
            payload = pay,
            msg_crc = crc8_func ([HEADER_START, HEADER_TYPE_MESSAGE, char_of (int (length pay) + 5), sq] @ pay) \<rparr>"
  have rf: "read_frame nt st = (Next ?f, nt\<lparr>incoming := rest\<rparr>, st)"
    by (rule read_frame_wire [OF assms(1-3)])
  have cs: "check_sequence ?f st =
    (if last_received_seq st = - 1 \<or> of_char sq = (last_received_seq st + 1) mod 256
     then (Next (), st\<lparr>last_received_seq := of_char sq\<rparr>)
     else (Return None, log (LogMessageSeq ((last_received_seq st + 1) mod 256) sq) st))"
    using check_sequence_message [OF _ assms(4,5), of ?f] by simp
  have df: "dispatch_frame h ?f st' =
      (case h pay st' of (Some e, st1) \<Rightarrow> (Raise e, st1) | (None, st1) \<Rightarrow> (Next (), st1))" for st'
    by (simp add: dispatch_frame_def HEADER_TYPE_MESSAGE_def HEADER_TYPE_COMMAND_def
        HEADER_TYPE_RESPONSE_def)
  show ?thesis
    unfolding recv_step_def
    by (simp only: rf cs df prod.case outcome.case)
       (simp split: prod.splits option.splits)
qed


text \<open>
  Claim C6. One pass of the receive loop over a well-formed message frame with sequence
  byte \<open>sq\<close>. \<open>deliver\<close> is the outcome of handing the payload to the message
  handler in the state where \<open>sq\<close> has been recorded as the last sequence received.
  When no message has been seen yet (\<open>- 1\<close>) every \<open>sq\<close> is delivered; otherwise
  \<open>sq\<close> is delivered exactly when it is the last one plus one modulo 256, and any
  other value ends \<open>recvresponse\<close> with \<open>None\<close>, the handler not called and the
  recorded sequence unchanged.
\<close>

theorem message_sequence_check:
  assumes "sock st" and "incoming nt = Chunk (wire HEADER_TYPE_MESSAGE sq pay) # rest"
    and "length pay \<le> 250"
    and "- 1 \<le> last_received_seq st" and "last_received_seq st \<le> 255"
    and "deliver = (case h pay (st\<lparr>last_received_seq := of_char sq\<rparr>) of
             (Some e, st1) \<Rightarrow> (Raise e, nt\<lparr>incoming := rest\<rparr>, st1)
           | (None, st1) \<Rightarrow> (Next (), nt\<lparr>incoming := rest\<rparr>, st1))"
  shows "(last_received_seq st = - 1 \<longrightarrow> recv_step h nt st = deliver) \<and>
         (last_received_seq st \<noteq> - 1 \<and> of_char sq = (last_received_seq st + 1) mod 256 \<longrightarrow>
            recv_step h nt st = deliver) \<and>
         (last_received_seq st \<noteq> - 1 \<and> of_char sq \<noteq> (last_received_seq st + 1) mod 256 \<longrightarrow>
            recv_step h nt st =
              (Return None, nt\<lparr>incoming := rest\<rparr>,
               log (LogMessageSeq ((last_received_seq st + 1) mod 256) sq) st) \<and>
            recvresponse h nt st =
              (Inr None, nt\<lparr>incoming := rest\<rparr>,
               log (LogMessageSeq ((last_received_seq st + 1) mod 256) sq) st))"
proof -
  note rs = recv_step_message [OF assms(1-5), of h]
  have r: "recvresponse h nt st =
      (Inr None, nt\<lparr>incoming := rest\<rparr>,
       log (LogMessageSeq ((last_received_seq st + 1) mod 256) sq) st)"
    if "last_received_seq st \<noteq> - 1" "of_char sq \<noteq> (last_received_seq st + 1) mod 256"
    using that by (subst recvresponse.simps) (simp add: rs)
  show ?thesis
    using r by (simp add: rs assms(6))
qed


lemma message_handler_debug:
  "message_handler [MSG_DEBUG, x] st = (None, log (LogDebugMessage [x]) st)"
  by (simp add: message_handler_def debug_print_message_def MSG_DEBUG_def MSG_ZONEEVENT_def)

theorem message_sequence_check_witness:
  "recv_step message_handler
     \<lparr>incoming = [Chunk (wire HEADER_TYPE_MESSAGE (CHR 0x2A) [MSG_DEBUG, CHR ''x''])], sent = []\<rparr>
     init_state =
   (Next (), \<lparr>incoming = [], sent = []\<rparr>,
    log (LogDebugMessage ''x'') (init_state\<lparr>last_received_seq := 42\<rparr>)) \<and>
   recv_step message_handler
     \<lparr>incoming = [Chunk (wire HEADER_TYPE_MESSAGE (CHR 0x00) [MSG_DEBUG, CHR ''x''])], sent = []\<rparr>
     (init_state\<lparr>last_received_seq := 255\<rparr>) =
   (Next (), \<lparr>incoming = [], sent = []\<rparr>,
    log (LogDebugMessage ''x'') (init_state\<lparr>last_received_seq := 0\<rparr>)) \<and>
   recv_step message_handler
     \<lparr>incoming = [Chunk (wire HEADER_TYPE_MESSAGE (CHR 0x07) [MSG_DEBUG, CHR ''x''])], sent = []\<rparr>
     (init_state\<lparr>last_received_seq := 5\<rparr>) =
   (Return None, \<lparr>incoming = [], sent = []\<rparr>,
    log (LogMessageSeq 6 (CHR 0x07)) (init_state\<lparr>last_received_seq := 5\<rparr>))"
proof -
  have inc: "incoming \<lparr>incoming = [Chunk (wire HEADER_TYPE_MESSAGE sq [MSG_DEBUG, CHR ''x''])], sent = []\<rparr>
      = Chunk (wire HEADER_TYPE_MESSAGE sq [MSG_DEBUG, CHR ''x'']) # []" for sq
    by simp
  have len: "length [MSG_DEBUG, CHR ''x''] \<le> 250"
    by simp
  have a: "recv_step message_handler
     \<lparr>incoming = [Chunk (wire HEADER_TYPE_MESSAGE (CHR 0x2A) [MSG_DEBUG, CHR ''x''])], sent = []\<rparr>
     init_state =
   (Next (), \<lparr>incoming = [], sent = []\<rparr>,
    log (LogDebugMessage ''x'') (init_state\<lparr>last_received_seq := 42\<rparr>))"
    using message_sequence_check [where h = message_handler and st = init_state,
        OF _ inc [of "CHR 0x2A"] len _ _ refl]
    by (simp add: init_state_def message_handler_debug)
  have b: "recv_step message_handler
     \<lparr>incoming = [Chunk (wire HEADER_TYPE_MESSAGE (CHR 0x00) [MSG_DEBUG, CHR ''x''])], sent = []\<rparr>
     (init_state\<lparr>last_received_seq := 255\<rparr>) =
   (Next (), \<lparr>incoming = [], sent = []\<rparr>,
    log (LogDebugMessage ''x'') (init_state\<lparr>last_received_seq := 0\<rparr>))"
    using message_sequence_check [where h = message_handler
        and st = "init_state\<lparr>last_received_seq := 255\<rparr>",
        OF _ inc [of "CHR 0x00"] len _ _ refl]
    by (simp add: init_state_def message_handler_debug)
  have c: "recv_step message_handler
     \<lparr>incoming = [Chunk (wire HEADER_TYPE_MESSAGE (CHR 0x07) [MSG_DEBUG, CHR ''x''])], sent = []\<rparr>
     (init_state\<lparr>last_received_seq := 5\<rparr>) =
   (Return None, \<lparr>incoming = [], sent = []\<rparr>,
    log (LogMessageSeq 6 (CHR 0x07)) (init_state\<lparr>last_received_seq := 5\<rparr>))"
    using message_sequence_check [where h = message_handler
        and st = "init_state\<lparr>last_received_seq := 5\<rparr>",
        OF _ inc [of "CHR 0x07"] len _ _ refl]
    by (simp add: init_state_def)
  from a b c show ?thesis by blast
qed

text \<open>
  Claim C8. Let the header read return four bytes and the payload read return at least
  one byte, the last of which is taken as the checksum (whatever the length byte says and
  however the bytes are split into chunks). If the frame has a wrong start marker, a
  wrong checksum, a response sequence other than the one sent, a message sequence other
  than the next one, or the command type, \<open>recvresponse\<close> returns the one value
  \<open>None\<close>; so it does when the header read returns the forced-disconnect string.
\<close>

theorem invalid_frame_returns_none:
  assumes "sock st" and "recv 4 nt = (Inr header, nta)"
    and "header = ''+++'' \<or>
         header = [m, ty, ln, sq] \<and>
         recv (nat (of_char ln - 4)) nta = (Inr (pay @ [ck]), ntb) \<and>
         (m \<noteq> CHR ''t'' \<or>
          of_char ck \<noteq> crc8_func ([m, ty, ln, sq] @ pay) \<or>
          ty = CHR ''R'' \<and> last_sequence st = Some ls \<and> sq \<noteq> ls \<or>
          ty = CHR ''M'' \<and> 0 \<le> last_received_seq st \<and> last_received_seq st \<le> 255 \<and>
            of_char sq \<noteq> (last_received_seq st + 1) mod 256 \<or>
          ty = CHR ''C'')"
  shows "fst (recvresponse h nt st) = Inr None"
proof -
  have r1: "recv (nat LENGTH_HEADER) nt = (Inr header, nta)"
    using assms(2) by (simp add: LENGTH_HEADER_def)
  have "\<exists>nt' st'. recv_step h nt st = (Return None, nt', st')"
    using assms(3)
  proof
    assume "header = ''+++''"
    then show ?thesis
      using assms(1) r1 by (simp add: recv_step_def read_frame_def del: recv.simps)
  next
    assume fr: "header = [m, ty, ln, sq] \<and>
         recv (nat (of_char ln - 4)) nta = (Inr (pay @ [ck]), ntb) \<and>
         (m \<noteq> CHR ''t'' \<or>
          of_char ck \<noteq> crc8_func ([m, ty, ln, sq] @ pay) \<or>
          ty = CHR ''R'' \<and> last_sequence st = Some ls \<and> sq \<noteq> ls \<or>
          ty = CHR ''M'' \<and> 0 \<le> last_received_seq st \<and> last_received_seq st \<le> 255 \<and>
            of_char sq \<noteq> (last_received_seq st + 1) mod 256 \<or>
          ty = CHR ''C'')"
    then have hd: "header = [m, ty, ln, sq]"
      and r2: "recv (nat (of_char ln - 4)) nta = (Inr (pay @ [ck]), ntb)"
      by simp_all
    have nn: "\<not> of_char ln - LENGTH_HEADER < 0"
    proof
      assume "of_char ln - LENGTH_HEADER < 0"
      then have "nat (of_char ln - 4) = 0" by (simp add: LENGTH_HEADER_def)
      with r2 show False by simp
    qed
    have r2': "recv (nat (of_char ln - LENGTH_HEADER)) nta = (Inr (pay @ [ck]), ntb)"
      using r2 by (simp add: LENGTH_HEADER_def)
    have rf: "read_frame nt st =
      (if m \<noteq> CHR ''t'' then (Return None, ntb, log (LogBadStart m) st)
       else if of_char ck \<noteq> crc8_func ([m, ty, ln, sq] @ pay)
         then (Return None, ntb,
                log (LogBadCrc (crc8_func ([m, ty, ln, sq] @ pay)) (of_char ck)) st)
       else (Next \<lparr> msg_start = m, msg_type = ty, msg_length = ln, msg_sequence = sq,
                    payload = pay, msg_crc = of_char ck \<rparr>, ntb, st))"
      unfolding read_frame_def
      using assms(1) nn
      by (simp only: r1 hd r2' prod.case sum.case list.case if_False if_True not_True_eq_False Let_def)
         simp
    let ?f = "\<lparr> msg_start = m, msg_type = ty, msg_length = ln, msg_sequence = sq,
                  payload = pay, msg_crc = of_char ck \<rparr>"
    show ?thesis
    proof (cases "m \<noteq> CHR ''t'' \<or> of_char ck \<noteq> crc8_func ([m, ty, ln, sq] @ pay)")
      case True
      then show ?thesis by (auto simp: recv_step_def rf)
    next
      case False
      then have rf': "read_frame nt st = (Next ?f, ntb, st)"
        by (simp add: rf)
      from False fr consider
          (R) "ty = CHR ''R''" "last_sequence st = Some ls" "sq \<noteq> ls"
        | (M) "ty = CHR ''M''" "0 \<le> last_received_seq st" "last_received_seq st \<le> 255"
            "of_char sq \<noteq> (last_received_seq st + 1) mod 256"
        | (C) "ty = CHR ''C''"
        by blast
      then show ?thesis
      proof cases
        case R
        then show ?thesis
          by (simp add: recv_step_def rf' check_sequence_def HEADER_TYPE_RESPONSE_def)
      next
        case M
        have "check_sequence ?f st =
            (Return None, log (LogMessageSeq ((last_received_seq st + 1) mod 256) sq) st)"
          using check_sequence_message [of ?f st] M
          by (simp add: HEADER_TYPE_MESSAGE_def)
        then show ?thesis
          by (simp add: recv_step_def rf')
      next
        case C
        then show ?thesis
          by (simp add: recv_step_def rf' check_sequence_def dispatch_frame_def
              HEADER_TYPE_RESPONSE_def HEADER_TYPE_MESSAGE_def HEADER_TYPE_COMMAND_def)
      qed
    qed
  qed
  then obtain nt' st' where "recv_step h nt st = (Return None, nt', st')" by blast
  then show ?thesis
    by (subst recvresponse.simps) simp
qed

lemma crc_plus_one_differs: "of_char (char_of (crc8_func d + 1)) \<noteq> crc8_func d"
proof -
  have "(crc8_func d + 1) mod 256 \<noteq> crc8_func d"
    using crc8_func_range [of d] by (cases "crc8_func d = 255") simp_all
  then show ?thesis by simp
qed

theorem invalid_frame_returns_none_witness:
  "fst (recvresponse message_handler \<lparr>incoming = [Chunk ''+++''], sent = []\<rparr> init_state) = Inr None \<and>
   fst (recvresponse message_handler
     \<lparr>incoming = [Chunk ([CHR ''x'', CHR ''R'', CHR 0x06, CHR 0x00] @ [CHR 0x17] @ [CHR 0x00])], sent = []\<rparr>
     init_state) = Inr None \<and>
   fst (recvresponse message_handler
     \<lparr>incoming = [Chunk ([CHR ''t'', CHR ''R'', CHR 0x06, CHR 0x00] @ [CHR 0x17] @ [char_of (crc8_func ([CHR ''t'', CHR ''R'', CHR 0x06, CHR 0x00] @ [CHR 0x17]) + 1)])], sent = []\<rparr>
     init_state) = Inr None \<and>
   fst (recvresponse message_handler
     \<lparr>incoming = [Chunk ([CHR ''t'', CHR ''R'', CHR 0x06, CHR 0x05] @ [CHR 0x17] @ [char_of (crc8_func ([CHR ''t'', CHR ''R'', CHR 0x06, CHR 0x05] @ [CHR 0x17]))])], sent = []\<rparr>
     (init_state\<lparr>last_sequence := Some (CHR 0x00)\<rparr>)) = Inr None \<and>
   fst (recvresponse message_handler
     \<lparr>incoming = [Chunk ([CHR ''t'', CHR ''M'', CHR 0x06, CHR 0x07] @ [CHR 0x00] @ [char_of (crc8_func ([CHR ''t'', CHR ''M'', CHR 0x06, CHR 0x07] @ [CHR 0x00]))])], sent = []\<rparr>
     (init_state\<lparr>last_received_seq := 5\<rparr>)) = Inr None \<and>
   fst (recvresponse message_handler
     \<lparr>incoming = [Chunk ([CHR ''t'', CHR ''C'', CHR 0x06, CHR 0x00] @ [CHR 0x17] @ [char_of (crc8_func ([CHR ''t'', CHR ''C'', CHR 0x06, CHR 0x00] @ [CHR 0x17]))])], sent = []\<rparr>
     init_state) = Inr None \<and>
   fst (recvresponse message_handler
     \<lparr>incoming = [Chunk [CHR ''t'', CHR ''C'', CHR 0x06, CHR 0x00], Chunk ([CHR 0x17] @ [char_of (crc8_func ([CHR ''t'', CHR ''C'', CHR 0x06, CHR 0x00] @ [CHR 0x17]))])], sent = []\<rparr>
     init_state) = Inr None"
proof -
  have s0: "sock init_state" "sock (init_state\<lparr>last_sequence := Some (CHR 0x00)\<rparr>)"
    "sock (init_state\<lparr>last_received_seq := 5\<rparr>)"
    by (simp_all add: init_state_def)
  have a: "fst (recvresponse message_handler \<lparr>incoming = [Chunk ''+++''], sent = []\<rparr> init_state) = Inr None"
    by (rule invalid_frame_returns_none [where header = "''+++''"
          and nta = "\<lparr>incoming = [], sent = []\<rparr>", OF s0(1)]) simp_all
  have b: "fst (recvresponse message_handler
     \<lparr>incoming = [Chunk ([CHR ''x'', CHR ''R'', CHR 0x06, CHR 0x00] @ [CHR 0x17] @ [CHR 0x00])], sent = []\<rparr>
     init_state) = Inr None"
    by (rule invalid_frame_returns_none [where header = "[CHR ''x'', CHR ''R'', CHR 0x06, CHR 0x00]" and m = "CHR ''x''" and ty = "CHR ''R''" and ln = "CHR 0x06"
          and sq = "CHR 0x00" and pay = "[CHR 0x17]" and ck = "CHR 0x00"
          and nta = "\<lparr>incoming = [Chunk ([CHR 0x17] @ [CHR 0x00])], sent = []\<rparr>"
          and ntb = "\<lparr>incoming = [], sent = []\<rparr>", OF s0(1)])
       (simp_all add: init_state_def)
  have c: "fst (recvresponse message_handler
     \<lparr>incoming = [Chunk ([CHR ''t'', CHR ''R'', CHR 0x06, CHR 0x00] @ [CHR 0x17] @ [char_of (crc8_func ([CHR ''t'', CHR ''R'', CHR 0x06, CHR 0x00] @ [CHR 0x17]) + 1)])], sent = []\<rparr>
     init_state) = Inr None"
    by (rule invalid_frame_returns_none [where header = "[CHR ''t'', CHR ''R'', CHR 0x06, CHR 0x00]" and m = "CHR ''t''" and ty = "CHR ''R''" and ln = "CHR 0x06"
          and sq = "CHR 0x00" and pay = "[CHR 0x17]" and ck = "char_of (crc8_func ([CHR ''t'', CHR ''R'', CHR 0x06, CHR 0x00] @ [CHR 0x17]) + 1)"
          and nta = "\<lparr>incoming = [Chunk ([CHR 0x17] @ [char_of (crc8_func ([CHR ''t'', CHR ''R'', CHR 0x06, CHR 0x00] @ [CHR 0x17]) + 1)])], sent = []\<rparr>"
          and ntb = "\<lparr>incoming = [], sent = []\<rparr>", OF s0(1)])
       (simp_all add: crc_plus_one_differs del: of_char_of)
  have d: "fst (recvresponse message_handler
     \<lparr>incoming = [Chunk ([CHR ''t'', CHR ''R'', CHR 0x06, CHR 0x05] @ [CHR 0x17] @ [char_of (crc8_func ([CHR ''t'', CHR ''R'', CHR 0x06, CHR 0x05] @ [CHR 0x17]))])], sent = []\<rparr>
     (init_state\<lparr>last_sequence := Some (CHR 0x00)\<rparr>)) = Inr None"
    by (rule invalid_frame_returns_none [where header = "[CHR ''t'', CHR ''R'', CHR 0x06, CHR 0x05]" and m = "CHR ''t''" and ty = "CHR ''R''" and ln = "CHR 0x06"
          and sq = "CHR 0x05" and pay = "[CHR 0x17]" and ck = "char_of (crc8_func ([CHR ''t'', CHR ''R'', CHR 0x06, CHR 0x05] @ [CHR 0x17]))"
          and nta = "\<lparr>incoming = [Chunk ([CHR 0x17] @ [char_of (crc8_func ([CHR ''t'', CHR ''R'', CHR 0x06, CHR 0x05] @ [CHR 0x17]))])], sent = []\<rparr>"
          and ntb = "\<lparr>incoming = [], sent = []\<rparr>"
          and ls = "CHR 0x00", OF s0(2)])
       (simp_all add: init_state_def)
  have e: "fst (recvresponse message_handler
     \<lparr>incoming = [Chunk ([CHR ''t'', CHR ''M'', CHR 0x06, CHR 0x07] @ [CHR 0x00] @ [char_of (crc8_func ([CHR ''t'', CHR ''M'', CHR 0x06, CHR 0x07] @ [CHR 0x00]))])], sent = []\<rparr>
     (init_state\<lparr>last_received_seq := 5\<rparr>)) = Inr None"
    by (rule invalid_frame_returns_none [where header = "[CHR ''t'', CHR ''M'', CHR 0x06, CHR 0x07]" and m = "CHR ''t''" and ty = "CHR ''M''" and ln = "CHR 0x06"
          and sq = "CHR 0x07" and pay = "[CHR 0x00]" and ck = "char_of (crc8_func ([CHR ''t'', CHR ''M'', CHR 0x06, CHR 0x07] @ [CHR 0x00]))"
          and nta = "\<lparr>incoming = [Chunk ([CHR 0x00] @ [char_of (crc8_func ([CHR ''t'', CHR ''M'', CHR 0x06, CHR 0x07] @ [CHR 0x00]))])], sent = []\<rparr>"
          and ntb = "\<lparr>incoming = [], sent = []\<rparr>", OF s0(3)])
       (simp_all add: init_state_def)
  have f: "fst (recvresponse message_handler
     \<lparr>incoming = [Chunk ([CHR ''t'', CHR ''C'', CHR 0x06, CHR 0x00] @ [CHR 0x17] @ [char_of (crc8_func ([CHR ''t'', CHR ''C'', CHR 0x06, CHR 0x00] @ [CHR 0x17]))])], sent = []\<rparr>
     init_state) = Inr None"
    by (rule invalid_frame_returns_none [where header = "[CHR ''t'', CHR ''C'', CHR 0x06, CHR 0x00]" and m = "CHR ''t''" and ty = "CHR ''C''" and ln = "CHR 0x06"
          and sq = "CHR 0x00" and pay = "[CHR 0x17]" and ck = "char_of (crc8_func ([CHR ''t'', CHR ''C'', CHR 0x06, CHR 0x00] @ [CHR 0x17]))"
          and nta = "\<lparr>incoming = [Chunk ([CHR 0x17] @ [char_of (crc8_func ([CHR ''t'', CHR ''C'', CHR 0x06, CHR 0x00] @ [CHR 0x17]))])], sent = []\<rparr>"
          and ntb = "\<lparr>incoming = [], sent = []\<rparr>", OF s0(1)])
       (simp_all add: init_state_def)
  have g: "fst (recvresponse message_handler
     \<lparr>incoming = [Chunk [CHR ''t'', CHR ''C'', CHR 0x06, CHR 0x00], Chunk ([CHR 0x17] @ [char_of (crc8_func ([CHR ''t'', CHR ''C'', CHR 0x06, CHR 0x00] @ [CHR 0x17]))])], sent = []\<rparr>
     init_state) = Inr None"
    by (rule invalid_frame_returns_none [where header = "[CHR ''t'', CHR ''C'', CHR 0x06, CHR 0x00]" and m = "CHR ''t''" and ty = "CHR ''C''" and ln = "CHR 0x06"
          and sq = "CHR 0x00" and pay = "[CHR 0x17]" and ck = "char_of (crc8_func ([CHR ''t'', CHR ''C'', CHR 0x06, CHR 0x00] @ [CHR 0x17]))"
          and nta = "\<lparr>incoming = [Chunk ([CHR 0x17] @ [char_of (crc8_func ([CHR ''t'', CHR ''C'', CHR 0x06, CHR 0x00] @ [CHR 0x17]))])], sent = []\<rparr>"
          and ntb = "\<lparr>incoming = [], sent = []\<rparr>", OF s0(1)])
       (simp_all add: init_state_def)
  from a b c d e f g show ?thesis by blast
qed

text \<open>
  Claim C8 as stated covers every frame with a wrong start marker. The payload is read
  and its last byte taken before the marker is looked at, so a header with a wrong marker
  and a length byte of 4 ends in \<open>IndexError\<close>, and one with a length byte of 3 in
  \<open>ValueError\<close>.
\<close>

theorem invalid_frame_counterexample:
  "fst (recvresponse message_handler
     \<lparr>incoming = [Chunk [CHR ''x'', CHR ''R'', CHR 0x04, CHR 0x00]], sent = []\<rparr> init_state) =
     Inl IndexError \<and>
   fst (recvresponse message_handler
     \<lparr>incoming = [Chunk [CHR ''x'', CHR ''R'', CHR 0x03, CHR 0x00]], sent = []\<rparr> init_state) =
     Inl ValueError"
  by (simp add: recvresponse.simps recv_step_def read_frame_def init_state_def LENGTH_HEADER_def)

section \<open>Properties of the zone scan\<close>

lemma read_frame_zone: "read_frame nt st = (r, nt', st') \<Longrightarrow> zone st' = zone st"
  by (auto simp: read_frame_def log_def Let_def simp del: recv.simps
      split: if_splits prod.splits sum.splits list.splits)

lemma check_sequence_zone: "check_sequence f st = (r, st') \<Longrightarrow> zone st' = zone st"
  by (auto simp: check_sequence_def log_def Let_def
      split: if_splits prod.splits sum.splits option.splits outcome.splits)

lemma dispatch_frame_zone:
  assumes "\<And>p s. zone (snd (h p s)) = zone s" and "dispatch_frame h f st = (r, st')"
  shows "zone st' = zone st"
proof -
  have "zone (snd (h (payload f) st)) = zone st" by (rule assms(1))
  with assms(2) show ?thesis
    by (auto simp: dispatch_frame_def log_def split: if_splits prod.splits option.splits)
qed

lemma recv_step_zone:
  assumes "\<And>p s. zone (snd (h p s)) = zone s" and "recv_step h nt st = (r, nt', st')"
  shows "zone st' = zone st"
  using assms(2)
  by (auto simp: recv_step_def split: prod.splits outcome.splits
      dest!: read_frame_zone check_sequence_zone dispatch_frame_zone [OF assms(1)])

lemma recvresponse_zone:
  assumes "\<And>p s. zone (snd (h p s)) = zone s" and "recvresponse h nt st = (r, nt', st')"
  shows "zone st' = zone st"
  using assms
proof (induction h nt st rule: recvresponse.induct)
  case (1 h nt st)
  obtain o1 nt1 st1 where rs: "recv_step h nt st = (o1, nt1, st1)"
    by (rule prod_cases3)
  have z1: "zone st1 = zone st"
    by (rule recv_step_zone [OF _ rs]) (rule "1.prems"(1))
  show ?case
  proof (cases o1)
    case (Next u)
    with rs "1.prems"(2) have "recvresponse h nt1 st1 = (r, nt', st')"
      by (subst (asm) recvresponse.simps) simp
    then have "zone st' = zone st1"
      using "1.IH" [OF rs [symmetric] Next refl] "1.prems"(1) by blast
    with z1 show ?thesis by simp
  next
    case (Return x)
    with rs "1.prems"(2) z1 show ?thesis
      by (subst (asm) recvresponse.simps) simp
  next
    case (Raise e)
    with rs "1.prems"(2) z1 show ?thesis
      by (subst (asm) recvresponse.simps) simp
  qed
qed


lemma retry_loop_zone:
  assumes "\<And>p s. zone (snd (h p s)) = zone s" and "retry_loop k h nt st = (r, nt', st')"
  shows "zone st' = zone st"
  using assms(2)
proof (induction k arbitrary: nt st)
  case 0
  then show ?case by simp
next
  case (Suc k)
  obtain r1 nt1 st1 where rr: "recvresponse h nt st = (r1, nt1, st1)"
    by (rule prod_cases3)
  have z1: "zone st1 = zone st"
    by (rule recvresponse_zone [OF assms(1) rr])
  show ?case
  proof (cases "r1 = Inl SocketTimeout \<and> sock st1 \<and> last_command st1 \<noteq> None")
    case True
    then obtain data where d: "last_command st1 = Some data" by blast
    with True rr Suc.prems
    have "retry_loop k h (send data nt1) (log LogTimeoutResend st1) = (r, nt', st')"
      by (simp add: Let_def log_def)
    from Suc.IH [OF this] z1 show ?thesis by (simp add: log_def)
  next
    case False
    with rr Suc.prems z1 show ?thesis
      by (auto simp: Let_def log_def split: sum.splits if_splits option.splits)
  qed
qed

lemma sendcommandbody_zone: "sendcommandbody body nt st = (r, nt', st') \<Longrightarrow> zone st' = zone st"
  by (auto simp: sendcommandbody_def getnextseq_def Let_def
      split: sum.splits if_splits prod.splits)

lemma check_response_zone: "check_response cmd resp nt st = (r, nt', st') \<Longrightarrow> zone st' = zone st"
  by (auto simp: check_response_def log_def split: list.splits if_splits)

lemma sendcommand_zone:
  assumes "\<And>p s. zone (snd (h p s)) = zone s" and "sendcommand h cmd b nt st = (r, nt', st')"
  shows "zone st' = zone st"
proof -
  define body where "body = (case b of None \<Rightarrow> [cmd] | Some x \<Rightarrow> if x \<noteq> [] then cmd # x else [cmd])"
  obtain r1 nt1 st1 where scb: "sendcommandbody body nt st = (r1, nt1, st1)"
    by (rule prod_cases3)
  obtain r2 nt2 st2 where rl: "retry_loop 3 h nt1 st1 = (r2, nt2, st2)"
    by (rule prod_cases3)
  have z: "zone st1 = zone st" "zone st2 = zone st1"
    using sendcommandbody_zone [OF scb] retry_loop_zone [OF assms(1) rl] by simp_all
  from assms(2) have "(case r1 of Inl e \<Rightarrow> (Inl e, nt1, st1)
      | Inr u \<Rightarrow> (case r2 of Inl e \<Rightarrow> (Inl e, nt2, st2)
          | Inr None \<Rightarrow> (Inl UnboundLocalError, nt2, st2)
          | Inr (Some None) \<Rightarrow> (Inl TypeError, nt2, st2)
          | Inr (Some (Some response)) \<Rightarrow> check_response cmd response nt2 st2)) = (r, nt', st')"
    by (simp add: sendcommand_def body_def [symmetric] Let_def scb rl
        split: sum.splits option.splits)
  then show ?thesis
    using z by (auto split: sum.splits option.splits dest!: check_response_zone)
qed

lemma get_zone_details_zone:
  assumes "\<And>p s. zone (snd (h p s)) = zone s" and "get_zone_details h zn nt st = (r, nt', st')"
  shows "zone st' = zone st"
  using assms(2)
  by (auto simp: get_zone_details_def Let_def log_def
      split: sum.splits option.splits if_splits prod.splits
      dest!: sendcommand_zone [OF assms(1)])

lemma get_panel_identification_zone:
  assumes "\<And>p s. zone (snd (h p s)) = zone s" and "get_panel_identification h nt st = (r, nt', st')"
  shows "zone st' = zone st"
  using assms(2)
  by (auto simp: get_panel_identification_def log_def
      split: sum.splits option.splits if_splits prod.splits
      dest!: sendcommand_zone [OF assms(1)])


lemma debug_print_message_zone: "zone (snd (debug_print_message p s)) = zone s"
  by (simp add: debug_print_message_def log_def Let_def
      split: list.splits option.splits sum.splits prod.splits)

lemma message_handler_zone: "zone (snd (message_handler p s)) = zone s"
proof -
  obtain e s1 where d: "debug_print_message p s = (e, s1)"
    by (rule prod.exhaust)
  with debug_print_message_zone [of p s] have "zone s1 = zone s" by simp
  then show ?thesis
    by (simp add: message_handler_def d Let_def
        split: list.splits option.splits sum.splits)
qed

lemma upto_1_5: "[1..5] = [1, 2, 3, 4, 5::int]"
  by (simp add: upto_rec1)

text \<open>
  Claim C7. The panel identification gives a zone count of 5, the queries for zones 1 and
  2 succeed and the query for zone 3 fails (it raises, or returns \<open>None\<close>, which the
  unpacking in \<open>get_all_zones\<close> turns into a \<open>TypeError\<close>). The message handler
  does not write the zone registry. Then \<open>get_all_zones\<close> ends with an exception, and
  the registry is the one it started with plus the records of zones 1 and 2: from the
  empty registry of a new session its keys are exactly 1 and 2, so zones 3 to 5 are
  absent.
\<close>

theorem get_all_zones_third_fails:
  assumes hz: "\<And>p s. zone (snd (h p s)) = zone s"
    and pid: "get_panel_identification h nt st = (Inr (Some idstr), nt0, st0)"
    and sp: "split_ws idstr = [panel_type, num_of_zones, something, firmware_version]"
    and n5: "int_py num_of_zones = Inr 5"
    and z1: "get_zone_details h 1 nt0 st0 = (Inr (Some (t1, a1, x1)), nt1, st1)"
    and d1: "d1 = \<lparr> ztype = t1, areas = a1, ztext = x1 \<rparr>"
    and z2: "get_zone_details h 2 nt1 (st1\<lparr>zone := (zone st1)(1 \<mapsto> d1)\<rparr>) =
               (Inr (Some (t2, a2, x2)), nt2, st2)"
    and d2: "d2 = \<lparr> ztype = t2, areas = a2, ztext = x2 \<rparr>"
    and z3: "get_zone_details h 3 nt2 (st2\<lparr>zone := (zone st2)(2 \<mapsto> d2)\<rparr>) = (r3, nt3, st3)"
    and fail: "r3 = Inl e3 \<or> r3 = Inr None"
  shows "(\<exists>e. get_all_zones h nt st = (Inl e, nt3, st3)) \<and>
         zone st3 = (zone st)(1 \<mapsto> d1, 2 \<mapsto> d2) \<and>
         (zone st = Map.empty \<longrightarrow> dom (zone st3) = {1, 2})"
proof -
  have zs: "zone st0 = zone st" "zone st1 = zone st0"
    "zone st2 = (zone st1)(1 \<mapsto> d1)" "zone st3 = (zone st2)(2 \<mapsto> d2)"
    using get_panel_identification_zone [OF hz pid] get_zone_details_zone [OF hz z1]
      get_zone_details_zone [OF hz z2] get_zone_details_zone [OF hz z3]
    by simp_all
  have l3: "\<exists>e. zone_loop h [3, 4, 5] nt2 (st2\<lparr>zone := (zone st2)(2 \<mapsto> d2)\<rparr>) = (Inl e, nt3, st3)"
    using fail by (auto simp: z3)
  have l2: "zone_loop h [2, 3, 4, 5] nt1 (st1\<lparr>zone := (zone st1)(1 \<mapsto> d1)\<rparr>) =
      zone_loop h [3, 4, 5] nt2 (st2\<lparr>zone := (zone st2)(2 \<mapsto> d2)\<rparr>)"
    by (simp add: z2 d2 del: zone_loop.simps add: zone_loop.simps(2) [of h 2])
  have l1: "zone_loop h [1, 2, 3, 4, 5] nt0 st0 =
      zone_loop h [2, 3, 4, 5] nt1 (st1\<lparr>zone := (zone st1)(1 \<mapsto> d1)\<rparr>)"
    by (simp add: z1 d1 del: zone_loop.simps add: zone_loop.simps(2) [of h 1])
  have loop: "\<exists>e. zone_loop h [1, 2, 3, 4, 5] nt0 st0 = (Inl e, nt3, st3)"
    using l1 l2 l3 by simp
  have "get_all_zones h nt st = zone_loop h [1, 2, 3, 4, 5] nt0 st0"
    by (simp add: get_all_zones_def pid sp n5 upto_1_5)
  with loop have r: "\<exists>e. get_all_zones h nt st = (Inl e, nt3, st3)"
    by simp
  have z: "zone st3 = (zone st)(1 \<mapsto> d1, 2 \<mapsto> d2)"
    by (simp add: zs)
  have "dom (zone st3) = {1, 2}" if "zone st = Map.empty"
    using that by (auto simp: z)
  with r z show ?thesis by blast
qed


lemma get_panel_identification_response:
  assumes "sock st" and "0 \<le> nextseq st" and "nextseq st < 256"
    and "incoming nt = Chunk (wire HEADER_TYPE_RESPONSE (char_of (nextseq st))
           (CMD_GETPANELIDENTIFICATION # panelid)) # rest"
    and "length panelid = 32"
  shows "\<exists>nt' st'. get_panel_identification h nt st = (Inr (Some panelid), nt', st') \<and>
           incoming nt' = rest \<and> sock st' \<and> nextseq st' = nextseq st + 1"
proof -
  have n: "nextseq st = (if nextseq st = 256 then 0 else nextseq st)"
    using assms(3) by simp
  have len: "length (CMD_GETPANELIDENTIFICATION # panelid) \<le> 250"
    using assms(5) by simp
  have b: "[CMD_GETPANELIDENTIFICATION] = (case None :: string option of
      None \<Rightarrow> [CMD_GETPANELIDENTIFICATION]
    | Some x \<Rightarrow> if x \<noteq> [] then CMD_GETPANELIDENTIFICATION # x else [CMD_GETPANELIDENTIFICATION])"
    by simp
  have l1: "length [CMD_GETPANELIDENTIFICATION] \<le> 250" by simp
  note sc = sendcommand_response [OF assms(1) assms(2) _ b l1 assms(4) len n refl refl refl, of h]
  show ?thesis
    using assms(1,3,5)
    by (simp add: get_panel_identification_def sc check_response_def log_def)
qed

lemma get_zone_details_response:
  assumes "sock st" and "0 \<le> nextseq st" and "nextseq st < 256"
    and "0 \<le> zn" and "zn < 256"
    and "incoming nt = Chunk (wire HEADER_TYPE_RESPONSE (char_of (nextseq st))
           (CMD_GETZONEDETAILS # details)) # rest"
    and "34 \<le> length details" and "length details \<le> 249"
  shows "\<exists>nt' st'. get_zone_details h zn nt st =
           (Inr (Some (of_char (details ! 0), of_char (details ! 1),
                       strip (sub_nonword (replace_nul (drop 2 details))))), nt', st') \<and>
           incoming nt' = rest \<and> sock st' \<and> nextseq st' = nextseq st + 1"
proof -
  have n: "nextseq st = (if nextseq st = 256 then 0 else nextseq st)"
    using assms(3) by simp
  have len: "length (CMD_GETZONEDETAILS # details) \<le> 250"
    using assms(8) by simp
  have b: "[CMD_GETZONEDETAILS, char_of zn] = (case Some [char_of zn] of
      None \<Rightarrow> [CMD_GETZONEDETAILS]
    | Some x \<Rightarrow> if x \<noteq> [] then CMD_GETZONEDETAILS # x else [CMD_GETZONEDETAILS])"
    by simp
  have l1: "length [CMD_GETZONEDETAILS, char_of zn] \<le> 250" by simp
  have c: "chr_py zn = Inr (char_of zn)"
    using assms(4,5) by (simp add: chr_py_def)
  note sc = sendcommand_response [OF assms(1) assms(2) _ b l1 assms(6) len n refl refl refl, of h]
  show ?thesis
    using assms(1,3,7)
    by (simp add: get_zone_details_def c sc check_response_def log_def Let_def)
qed

lemma get_zone_details_timeouts:
  assumes "sock st" and "0 \<le> nextseq st" and "nextseq st < 256"
    and "0 \<le> zn" and "zn < 256"
    and "set (take 3 (incoming nt)) \<subseteq> {Timeout}"
  shows "fst (get_zone_details h zn nt st) = Inl UnboundLocalError"
proof -
  have b: "[CMD_GETZONEDETAILS, char_of zn] = (case Some [char_of zn] of
      None \<Rightarrow> [CMD_GETZONEDETAILS]
    | Some x \<Rightarrow> if x \<noteq> [] then CMD_GETZONEDETAILS # x else [CMD_GETZONEDETAILS])"
    by simp
  have l1: "length [CMD_GETZONEDETAILS, char_of zn] \<le> 250" by simp
  have c: "chr_py zn = Inr (char_of zn)"
    using assms(4,5) by (simp add: chr_py_def)
  note sc = sendcommand_all_timeouts [OF assms(1) assms(2) _ b l1 assms(6) refl refl, of h]
  show ?thesis
    using assms(3) by (simp add: get_zone_details_def c sc)
qed


lemma split_elite: "split_ws (''Elite 5 x V4'' @ replicate 20 (CHR '' '')) = [''Elite'', ''5'', ''x'', ''V4'']"
  by code_simp

lemma int_py_5: "int_py ''5'' = Inr 5"
  by (simp add: int_py_def is_digit_def digits_value_def)

theorem get_all_zones_third_fails_witness:
  "(\<exists>e. fst (get_all_zones message_handler
      \<lparr>incoming =
         [Chunk (wire HEADER_TYPE_RESPONSE (char_of (0::int))
            (CMD_GETPANELIDENTIFICATION # ''Elite 5 x V4'' @ replicate 20 (CHR '' ''))),
          Chunk (wire HEADER_TYPE_RESPONSE (char_of (1::int))
            (CMD_GETZONEDETAILS # CHR 0x01 # CHR 0x01 # ''Hall'' @ replicate 28 (CHR 0x00))),
          Chunk (wire HEADER_TYPE_RESPONSE (char_of (2::int))
            (CMD_GETZONEDETAILS # CHR 0x01 # CHR 0x01 # ''Door'' @ replicate 28 (CHR 0x00)))],
       sent = []\<rparr> init_state) = Inl e) \<and>
   dom (zone (snd (snd (get_all_zones message_handler
      \<lparr>incoming =
         [Chunk (wire HEADER_TYPE_RESPONSE (char_of (0::int))
            (CMD_GETPANELIDENTIFICATION # ''Elite 5 x V4'' @ replicate 20 (CHR '' ''))),
          Chunk (wire HEADER_TYPE_RESPONSE (char_of (1::int))
            (CMD_GETZONEDETAILS # CHR 0x01 # CHR 0x01 # ''Hall'' @ replicate 28 (CHR 0x00))),
          Chunk (wire HEADER_TYPE_RESPONSE (char_of (2::int))
            (CMD_GETZONEDETAILS # CHR 0x01 # CHR 0x01 # ''Door'' @ replicate 28 (CHR 0x00)))],
       sent = []\<rparr> init_state)))) = {1, 2}"
proof -
  define idstr where "idstr = ''Elite 5 x V4'' @ replicate 20 (CHR '' '')"
  define det1 where "det1 = CHR 0x01 # CHR 0x01 # ''Hall'' @ replicate 28 (CHR 0x00)"
  define det2 where "det2 = CHR 0x01 # CHR 0x01 # ''Door'' @ replicate 28 (CHR 0x00)"
  define f1 where "f1 = Chunk (wire HEADER_TYPE_RESPONSE (char_of (1::int)) (CMD_GETZONEDETAILS # det1))"
  define f2 where "f2 = Chunk (wire HEADER_TYPE_RESPONSE (char_of (2::int)) (CMD_GETZONEDETAILS # det2))"
  define nt where "nt = \<lparr>incoming =
      [Chunk (wire HEADER_TYPE_RESPONSE (char_of (0::int)) (CMD_GETPANELIDENTIFICATION # idstr)), f1, f2],
      sent = []\<rparr>"
  have s0: "sock init_state" "0 \<le> nextseq init_state" "nextseq init_state < 256"
    "zone init_state = Map.empty"
    by (simp_all add: init_state_def)
  have i0: "incoming nt = Chunk (wire HEADER_TYPE_RESPONSE (char_of (nextseq init_state))
      (CMD_GETPANELIDENTIFICATION # idstr)) # [f1, f2]"
    by (simp add: nt_def init_state_def)
  have lens: "length idstr = 32" "34 \<le> length det1" "length det1 \<le> 249"
    "34 \<le> length det2" "length det2 \<le> 249"
    by (simp_all add: idstr_def det1_def det2_def)
  from get_panel_identification_response [OF s0(1-3) i0 lens(1), of message_handler]
  obtain nt0 st0 where pid: "get_panel_identification message_handler nt init_state =
      (Inr (Some idstr), nt0, st0)"
    and p0: "incoming nt0 = [f1, f2]" "sock st0" "nextseq st0 = 1"
    by (auto simp: init_state_def)
  have i1: "incoming nt0 = Chunk (wire HEADER_TYPE_RESPONSE (char_of (nextseq st0))
      (CMD_GETZONEDETAILS # det1)) # [f2]"
    by (simp add: p0 f1_def)
  from get_zone_details_response [OF p0(2) _ _ _ _ i1 lens(2,3), of 1 message_handler]
  obtain t1 a1 x1 nt1 st1 where z1: "get_zone_details message_handler 1 nt0 st0 =
      (Inr (Some (t1, a1, x1)), nt1, st1)"
    and p1: "incoming nt1 = [f2]" "sock st1" "nextseq st1 = 2"
    by (auto simp: p0)
  define d1 where "d1 = \<lparr> ztype = t1, areas = a1, ztext = x1 \<rparr>"
  let ?st1 = "st1\<lparr>zone := (zone st1)(1 \<mapsto> d1)\<rparr>"
  have i2: "incoming nt1 = Chunk (wire HEADER_TYPE_RESPONSE (char_of (nextseq ?st1))
      (CMD_GETZONEDETAILS # det2)) # []"
    by (simp add: p1 f2_def)
  from get_zone_details_response [OF _ _ _ _ _ i2 lens(4,5), of 2 message_handler]
  obtain t2 a2 x2 nt2 st2 where z2: "get_zone_details message_handler 2 nt1 ?st1 =
      (Inr (Some (t2, a2, x2)), nt2, st2)"
    and p2: "incoming nt2 = []" "sock st2" "nextseq st2 = 3"
    by (auto simp: p1)
  define d2 where "d2 = \<lparr> ztype = t2, areas = a2, ztext = x2 \<rparr>"
  let ?st2 = "st2\<lparr>zone := (zone st2)(2 \<mapsto> d2)\<rparr>"
  obtain r3 nt3 st3 where z3: "get_zone_details message_handler 3 nt2 ?st2 = (r3, nt3, st3)"
    by (rule prod_cases3)
  have "fst (get_zone_details message_handler 3 nt2 ?st2) = Inl UnboundLocalError"
    by (rule get_zone_details_timeouts) (simp_all add: p2)
  with z3 have fail: "r3 = Inl UnboundLocalError \<or> r3 = Inr None"
    by simp
  have sp: "split_ws idstr = [''Elite'', ''5'', ''x'', ''V4'']"
    unfolding idstr_def by (rule split_elite)
  from get_all_zones_third_fails [OF message_handler_zone pid sp int_py_5 z1 d1_def z2 d2_def z3 fail]
  have "(\<exists>e. fst (get_all_zones message_handler nt init_state) = Inl e) \<and>
      dom (zone (snd (snd (get_all_zones message_handler nt init_state)))) = {1, 2}"
    using s0(4) by auto
  then show ?thesis
    by (simp only: nt_def f1_def f2_def idstr_def det1_def det2_def)
qed

section \<open>Responses on every path through the receive and retry loops\<close>
























lemma retry_loop_returns:
  "recvresponse h nt st = (Inr r, nt', st') \<Longrightarrow>
   retry_loop (Suc k) h nt st = (Inr (Some r), nt', st')"
  by simp




end
